theory Spec2Isabelle
  imports Complex_Main
begin

unbundle bit_operations_syntax

section \<open>The signature engine: HMAC-SHA256 with hex output\<close>

text \<open>
  The payment controller signs with
  \<^verbatim>\<open>crypto.createHmac('sha256', MERCHANT_SECRET).update(payload).digest('hex')\<close>.
  The function computed by that call is HMAC (RFC 2104) over SHA-256 (FIPS 180-4). It is
  written out here so that every signature of the model is a concrete string. Bytes are
  integers below 256, 32-bit words are integers below \<open>2 ^ 32\<close> with the wrap-around
  written out. The definitions avoid \<open>let\<close>
  and \<open>\<lambda>\<close> so that they evaluate argument-first.
\<close>

type_synonym u32 = int
type_synonym sha_state = "u32 \<times> u32 \<times> u32 \<times> u32 \<times> u32 \<times> u32 \<times> u32 \<times> u32"

text \<open>Addition modulo \<open>2 ^ 32\<close>. A rotation to the right by \<open>n\<close> bits is given by
  \<open>d = 2 ^ n\<close> and \<open>m = 2 ^ (32 - n)\<close>; the complement of \<open>x\<close> is \<open>2 ^ 32 - 1 - x\<close>.\<close>

definition add32 :: "u32 \<Rightarrow> u32 \<Rightarrow> u32" where
  "add32 a b = (a + b) mod 4294967296"

definition rot :: "int \<Rightarrow> int \<Rightarrow> u32 \<Rightarrow> u32" where
  "rot d m x = x div d + (x mod d) * m"

definition Ch :: "u32 \<Rightarrow> u32 \<Rightarrow> u32 \<Rightarrow> u32" where
  "Ch x y z = (x AND y) XOR ((4294967295 - x) AND z)"

definition Maj :: "u32 \<Rightarrow> u32 \<Rightarrow> u32 \<Rightarrow> u32" where
  "Maj x y z = (x AND y) XOR (x AND z) XOR (y AND z)"

definition bsig0 :: "u32 \<Rightarrow> u32" where
  "bsig0 x = rot 4 1073741824 x XOR rot 8192 524288 x XOR rot 4194304 1024 x"

definition bsig1 :: "u32 \<Rightarrow> u32" where
  "bsig1 x = rot 64 67108864 x XOR rot 2048 2097152 x XOR rot 33554432 128 x"

definition ssig0 :: "u32 \<Rightarrow> u32" where
  "ssig0 x = rot 128 33554432 x XOR rot 262144 16384 x XOR x div 8"

definition ssig1 :: "u32 \<Rightarrow> u32" where
  "ssig1 x = rot 131072 32768 x XOR rot 524288 8192 x XOR x div 1024"

text \<open>The round constants and the initial hash value, in decimal.\<close>

definition K256 :: "u32 list" where
  "K256 = [
   1116352408, 1899447441, 3049323471, 3921009573, 961987163, 1508970993, 2453635748, 2870763221,
   3624381080, 310598401, 607225278, 1426881987, 1925078388, 2162078206, 2614888103, 3248222580,
   3835390401, 4022224774, 264347078, 604807628, 770255983, 1249150122, 1555081692, 1996064986,
   2554220882, 2821834349, 2952996808, 3210313671, 3336571891, 3584528711, 113926993, 338241895,
   666307205, 773529912, 1294757372, 1396182291, 1695183700, 1986661051, 2177026350, 2456956037,
   2730485921, 2820302411, 3259730800, 3345764771, 3516065817, 3600352804, 4094571909, 275423344,
   430227734, 506948616, 659060556, 883997877, 958139571, 1322822218, 1537002063, 1747873779,
   1955562222, 2024104815, 2227730452, 2361852424, 2428436474, 2756734187, 3204031479, 3329325298]"

definition H0 :: sha_state where
  "H0 = (1779033703, 3144134277, 1013904242, 2773480762, 1359893119, 2600822924, 528734635, 1541459225)"

text \<open>Message schedule: the window holds the sixteen words before the one being made.\<close>

fun schedule :: "nat \<Rightarrow> u32 list \<Rightarrow> u32 list"
  and schedule_push :: "nat \<Rightarrow> u32 list \<Rightarrow> u32 \<Rightarrow> u32 list" where
  "schedule 0 w = []"
| "schedule (Suc n) w =
     schedule_push n (tl w) (add32 (add32 (ssig1 (w ! 14)) (w ! 9)) (add32 (ssig0 (w ! 1)) (w ! 0)))"
| "schedule_push n w x = x # schedule n (w @ [x])"

fun rounds :: "u32 list \<Rightarrow> u32 list \<Rightarrow> sha_state \<Rightarrow> sha_state"
  and round_step :: "u32 list \<Rightarrow> u32 list \<Rightarrow> sha_state \<Rightarrow> u32 \<Rightarrow> u32 \<Rightarrow> sha_state" where
  "rounds [] ws st = st"
| "rounds (k # ks) [] st = st"
| "rounds (k # ks) (w # ws) (a, b, c, d, e, f, g, h) =
     round_step ks ws (a, b, c, d, e, f, g, h)
       ((h + bsig1 e + Ch e f g + k + w) mod 4294967296) (add32 (bsig0 a) (Maj a b c))"
| "round_step ks ws (a, b, c, d, e, f, g, h) t1 t2 =
     rounds ks ws (add32 t1 t2, a, b, c, add32 d t1, e, f, g)"

fun add_state :: "sha_state \<Rightarrow> sha_state \<Rightarrow> sha_state" where
  "add_state (a, b, c, d, e, f, g, h) (a', b', c', d', e', f', g', h') =
     (add32 a a', add32 b b', add32 c c', add32 d d', add32 e e', add32 f f', add32 g g', add32 h h')"

definition compress :: "sha_state \<Rightarrow> u32 list \<Rightarrow> sha_state" where
  "compress st w16 = add_state st (rounds K256 (w16 @ schedule 48 w16) st)"

fun be_words :: "int list \<Rightarrow> u32 list" where
  "be_words (a # b # c # d # bs) =
     (((a * 256 + b) * 256 + c) * 256 + d) # be_words bs"
| "be_words bs = []"

fun blocks :: "nat \<Rightarrow> int list \<Rightarrow> int list list" where
  "blocks 0 bs = []"
| "blocks (Suc n) bs = take 64 bs # blocks n (drop 64 bs)"

definition be_bytes8 :: "int \<Rightarrow> int list" where
  "be_bytes8 n = [n div 72057594037927936 mod 256, n div 281474976710656 mod 256,
     n div 1099511627776 mod 256, n div 4294967296 mod 256,
     n div 16777216 mod 256, n div 65536 mod 256, n div 256 mod 256, n mod 256]"

definition pad :: "int list \<Rightarrow> int list" where
  "pad bs = bs @ [128] @ replicate ((119 - length bs mod 64) mod 64) 0
              @ be_bytes8 (8 * int (length bs))"

fun sha256_blocks :: "sha_state \<Rightarrow> int list list \<Rightarrow> sha_state" where
  "sha256_blocks st [] = st"
| "sha256_blocks st (blk # blks) = sha256_blocks (compress st (be_words blk)) blks"

definition chunks :: "int list \<Rightarrow> int list list" where
  "chunks p = blocks (length p div 64) p"

definition sha256 :: "int list \<Rightarrow> sha_state" where
  "sha256 bs = sha256_blocks H0 (chunks (pad bs))"

definition word_bytes :: "u32 \<Rightarrow> int list" where
  "word_bytes w = [w div 16777216, (w div 65536) mod 256, (w div 256) mod 256, w mod 256]"

fun state_bytes :: "sha_state \<Rightarrow> int list" where
  "state_bytes (a, b, c, d, e, f, g, h) =
     word_bytes a @ word_bytes b @ word_bytes c @ word_bytes d @
     word_bytes e @ word_bytes f @ word_bytes g @ word_bytes h"

definition sha256_bytes :: "int list \<Rightarrow> int list" where
  "sha256_bytes bs = state_bytes (sha256 bs)"

definition xor_pad :: "int \<Rightarrow> int list \<Rightarrow> int list" where
  "xor_pad c k = map ((XOR) c) (k @ replicate (64 - length k) 0)"

definition hmac_key :: "int list \<Rightarrow> int list" where
  "hmac_key key = (if length key > 64 then sha256_bytes key else key)"

definition hmac_sha256 :: "int list \<Rightarrow> int list \<Rightarrow> int list" where
  "hmac_sha256 key msg =
     sha256_bytes (xor_pad 92 (hmac_key key) @ sha256_bytes (xor_pad 54 (hmac_key key) @ msg))"

definition hexdigit :: "int \<Rightarrow> char" where
  "hexdigit n = ''0123456789abcdef'' ! nat n"

fun hex :: "int list \<Rightarrow> string" where
  "hex [] = []"
| "hex (b # bs) = hexdigit (b div 16) # hexdigit (b mod 16) # hex bs"

definition bytes_of :: "string \<Rightarrow> int list" where
  "bytes_of s = map of_char s"

definition hmac_hex :: "string \<Rightarrow> string \<Rightarrow> string" where
  "hmac_hex key msg = hex (hmac_sha256 (bytes_of key) (bytes_of msg))"

section \<open>Data model\<close>

text \<open>
  Strings are ASCII texts, one \<open>char\<close> per character. A request field is a JSON string
  or is absent (\<open>None\<close>); JavaScript's test \<^verbatim>\<open>!x\<close> holds of an absent field and of
  the empty string. Times are milliseconds since the epoch, as \<^verbatim>\<open>Date\<close> holds them.
\<close>

datatype jsnum = Fin rat | NaN | PosInf | NegInf

text \<open>The Transaction schema (models/Transaction.js), field by field.\<close>

record transaction =
  tid :: string
  userId :: "string option"
  orderId :: "string option"
  amount :: jsnum
  payType :: string
  upi :: string
  status :: string
  payload :: "string option"
  signature :: "string option"
  redirectUrl :: "string option"
  note' :: "string option"
  upiRef :: "string option"
  expires :: int
  completedAt :: "int option"
  errorMessage :: "string option"
  createdAt :: int
  updatedAt :: int

text \<open>Of the Order schema only the identifier and the two fields the payment controller
  writes are kept.\<close>

record order =
  order_id :: string
  paymentStatus :: string
  order_status :: string

text \<open>The Settings schema (models/Setting.js).\<close>

record settings =
  merchantUPI :: string
  merchantSecret :: string
  siteName :: string
  siteEmail :: string
  settingsVersion :: int

record db =
  transactions :: "transaction list"
  orders :: "order list"
  settingsDoc :: "settings option"

text \<open>
  What a handler reads besides the request and the database. A request reads the clock
  more than once, and each reading has its own field: \<open>now\<close> is the handler's
  \<^verbatim>\<open>new Date()\<close> and, in a creation, the \<^verbatim>\<open>Date.now()\<close> of the expiry;
  \<open>id_time\<close> is the \<^verbatim>\<open>Date.now()\<close> inside \<^verbatim>\<open>generateTransactionId\<close>;
  \<open>ref_time\<close> is the \<^verbatim>\<open>Date.now()\<close> of the simulated reference; \<open>saved_at\<close> is the
  later reading with which the schema's \<^verbatim>\<open>timestamps\<close> option stamps
  \<^verbatim>\<open>createdAt\<close> and \<^verbatim>\<open>updatedAt\<close> when a document is saved. No order between the
  readings is assumed. The other fields are the process environment variable
  \<^verbatim>\<open>MERCHANT_SECRET\<close> and the two random draws of a creation
  (\<^verbatim>\<open>Math.random().toString(36).substring(2, 15)\<close> and
  \<^verbatim>\<open>Math.floor(Math.random() * 900)\<close>).
\<close>

record env =
  now :: int
  id_time :: int
  ref_time :: int
  saved_at :: int
  process_env_MERCHANT_SECRET :: "string option"
  random_suffix :: string
  random_900 :: int

text \<open>The body of a verify, webhook or simulate request. Each handler destructures the
  fields it names and ignores the others.\<close>

record body =
  req_tid :: "string option"
  req_status :: "string option"
  req_signature :: "string option"
  req_amount :: "string option"
  req_upi_ref :: "string option"

datatype exn =
    ValidationError string
  | CastError string
  | DuplicateKey string
  | TypeError

datatype json =
    JUndefined
  | JNull
  | JBool bool
  | JNum jsnum
  | JStr string
  | JDate int
  | JMessage exn
  | JObj "(string \<times> json) list"

type_synonym response = "nat \<times> json"

definition truthy :: "string option \<Rightarrow> bool" where
  "truthy x = (case x of None \<Rightarrow> False | Some s \<Rightarrow> s \<noteq> [])"

text \<open>A value inside a template literal: \<^verbatim>\<open>`${x}`\<close>.\<close>

definition template :: "string option \<Rightarrow> string" where
  "template x = (case x of None \<Rightarrow> ''undefined'' | Some s \<Rightarrow> s)"

definition error_body :: "string \<Rightarrow> json" where
  "error_body msg = JObj [(''error'', JStr msg)]"

definition failure_body :: "string \<Rightarrow> exn \<Rightarrow> json" where
  "failure_body msg e = JObj [(''error'', JStr msg), (''message'', JMessage e)]"

section \<open>Signing\<close>

text \<open>\<^verbatim>\<open>const MERCHANT_SECRET = process.env.MERCHANT_SECRET || 'my_super_secret_key'\<close>\<close>

definition MERCHANT_SECRET :: "env \<Rightarrow> string" where
  "MERCHANT_SECRET ev =
     (if truthy (process_env_MERCHANT_SECRET ev) then the (process_env_MERCHANT_SECRET ev)
      else ''my_super_secret_key'')"

definition createSignature :: "env \<Rightarrow> string \<Rightarrow> string" where
  "createSignature ev p = hmac_hex (MERCHANT_SECRET ev) p"

section \<open>The persistence layer\<close>

text \<open>\<^verbatim>\<open>Transaction.findOne({ tid })\<close>: the first document with that identifier.\<close>

fun findOne :: "string \<Rightarrow> transaction list \<Rightarrow> transaction option" where
  "findOne k [] = None"
| "findOne k (t # ts) = (if tid t = k then Some t else findOne k ts)"

text \<open>
  \<^verbatim>\<open>document.save()\<close> of a loaded document sends the paths modified since the load and
  stamps \<^verbatim>\<open>updatedAt\<close>; the filter of the write is the document's identity alone. A path
  is modified when the value assigned differs from the loaded one, and the handlers
  assign \<open>status\<close>, \<open>completedAt\<close> and \<open>upiRef\<close>. In \<open>writeModified t d stamp x\<close> the
  loaded document is \<open>t\<close>, the document after the assignments is \<open>d\<close> and the stored
  one is \<open>x\<close>: a path that another request wrote between the load and the save, and that
  this request did not modify, keeps the stored value. No handler changes \<open>tid\<close>, so the
  stored document is the first with the loaded one's identifier.
\<close>

definition writeModified :: "transaction \<Rightarrow> transaction \<Rightarrow> int \<Rightarrow> transaction \<Rightarrow> transaction" where
  "writeModified t d stamp x =
     x\<lparr>status := (if status d = status t then status x else status d),
       completedAt := (if completedAt d = completedAt t then completedAt x else completedAt d),
       upiRef := (if upiRef d = upiRef t then upiRef x else upiRef d),
       updatedAt := stamp\<rparr>"

fun updateOne :: "transaction \<Rightarrow> transaction \<Rightarrow> int \<Rightarrow> transaction list \<Rightarrow> transaction list" where
  "updateOne t d stamp [] = []"
| "updateOne t d stamp (x # xs) =
     (if tid x = tid t then writeModified t d stamp x # xs else x # updateOne t d stamp xs)"

definition statusEnum :: "string list" where
  "statusEnum = [''pending'', ''success'', ''failed'', ''expired'']"

text \<open>Validation of a loaded document on save: of the paths the handlers modify only
  \<open>status\<close> carries a validator, the schema's \<^verbatim>\<open>enum\<close>. The other paths of a stored
  document are taken to be as the schema accepted them when the document was created.
  With no modified path nothing is written.\<close>

definition validateStatus :: "transaction \<Rightarrow> exn option" where
  "validateStatus d =
     (if status d \<in> set statusEnum then None else Some (ValidationError ''status''))"

definition saveLoaded :: "env \<Rightarrow> transaction \<Rightarrow> transaction \<Rightarrow> db \<Rightarrow> exn + db" where
  "saveLoaded ev t d s =
     (case validateStatus d of
        Some e \<Rightarrow> Inl e
      | None \<Rightarrow>
          Inr (if d = t then s
               else s\<lparr>transactions := updateOne t d (saved_at ev) (transactions s)\<rparr>))"

fun findById :: "string \<Rightarrow> order list \<Rightarrow> order option" where
  "findById k [] = None"
| "findById k (x # xs) = (if order_id x = k then Some x else findById k xs)"

fun writeOrder :: "order \<Rightarrow> order list \<Rightarrow> order list" where
  "writeOrder d [] = []"
| "writeOrder d (x # xs) = (if order_id x = order_id d then d # xs else x # writeOrder d xs)"

text \<open>The order update of verify and webhook: load, assign \<^verbatim>\<open>paymentStatus\<close> and
  \<^verbatim>\<open>status\<close>, save.\<close>

definition settleOrder :: "string option \<Rightarrow> string \<Rightarrow> db \<Rightarrow> db" where
  "settleOrder oid st s =
     (case oid of
        None \<Rightarrow> s
      | Some k \<Rightarrow>
          (case findById k (orders s) of
             None \<Rightarrow> s
           | Some x \<Rightarrow>
               s\<lparr>orders := writeOrder
                    (x\<lparr>paymentStatus := (if st = ''success'' then ''paid'' else ''failed''),
                       order_status := (if st = ''success'' then ''confirmed'' else ''cancelled'')\<rparr>)
                    (orders s)\<rparr>))"

text \<open>The order update of status and simulate: \<^verbatim>\<open>Order.findByIdAndUpdate\<close> with the
  keys \<^verbatim>\<open>paymentStatus\<close> and \<^verbatim>\<open>orderStatus\<close>. The Order schema has no path
  \<^verbatim>\<open>orderStatus\<close>, so only \<^verbatim>\<open>paymentStatus\<close> is written.\<close>

definition updateOrderPayment :: "string option \<Rightarrow> string \<Rightarrow> db \<Rightarrow> db" where
  "updateOrderPayment oid ps s =
     (case oid of
        None \<Rightarrow> s
      | Some k \<Rightarrow>
          (case findById k (orders s) of
             None \<Rightarrow> s
           | Some x \<Rightarrow> s\<lparr>orders := writeOrder (x\<lparr>paymentStatus := ps\<rparr>) (orders s)\<rparr>))"

section \<open>The handlers that read and resolve a transaction\<close>

definition opt_date :: "int option \<Rightarrow> json" where
  "opt_date d = (case d of None \<Rightarrow> JUndefined | Some t \<Rightarrow> JDate t)"

definition status_body :: "transaction \<Rightarrow> json" where
  "status_body t = JObj [(''tid'', JStr (tid t)), (''status'', JStr (status t)),
     (''amount'', JNum (amount t)), (''payType'', JStr (payType t)), (''upi'', JStr (upi t)),
     (''createdAt'', JDate (createdAt t)), (''completedAt'', opt_date (completedAt t))]"

text \<open>\<^verbatim>\<open>checkPaymentStatus\<close>, with the route parameter \<open>tid\<close>.\<close>

definition checkPaymentStatus :: "env \<Rightarrow> string \<Rightarrow> db \<Rightarrow> response \<times> db" where
  "checkPaymentStatus ev k s =
     (if k = [] then ((400, error_body ''Transaction ID is required''), s)
      else case findOne k (transactions s) of
        None \<Rightarrow> ((404, error_body ''Transaction not found''), s)
      | Some t \<Rightarrow>
          if status t = ''pending'' \<and> now ev > expires t then
            (case saveLoaded ev t (t\<lparr>status := ''expired''\<rparr>) s of
               Inl e \<Rightarrow> ((500, failure_body ''Failed to check payment status'' e), s)
             | Inr s' \<Rightarrow>
                 ((200, status_body (t\<lparr>status := ''expired''\<rparr>)),
                  updateOrderPayment (orderId t) ''failed'' s'))
          else ((200, status_body t), s))"

definition verified_body :: "string \<Rightarrow> transaction \<Rightarrow> json" where
  "verified_body st t = JObj [(''success'', JBool True), (''message'', JStr (''Payment '' @ st)),
     (''tid'', JStr (tid t)), (''status'', JStr (status t)), (''amount'', JNum (amount t))]"

text \<open>\<^verbatim>\<open>verifyPayment\<close>. \<^verbatim>\<open>createSignature(transaction.payload)\<close> throws a TypeError when
  the document has no payload; like every exception of the handler it ends in the
  \<^verbatim>\<open>catch\<close> block.\<close>

definition verifyPayment :: "env \<Rightarrow> body \<Rightarrow> db \<Rightarrow> response \<times> db" where
  "verifyPayment ev r s =
     (if \<not> truthy (req_tid r) \<or> \<not> truthy (req_status r) then
        ((400, error_body ''Transaction ID and status are required''), s)
      else case findOne (the (req_tid r)) (transactions s) of
        None \<Rightarrow> ((404, error_body ''Transaction not found''), s)
      | Some t \<Rightarrow>
          if truthy (req_signature r) \<and> payload t = None then
            ((500, failure_body ''Failed to verify payment'' TypeError), s)
          else if truthy (req_signature r)
                  \<and> the (req_signature r) \<noteq> createSignature ev (the (payload t)) then
            ((400, error_body ''Invalid signature''), s)
          else if status t \<noteq> ''pending'' then
            ((400, error_body (''Transaction already '' @ status t)), s)
          else
            (case saveLoaded ev t (t\<lparr>status := the (req_status r), completedAt := Some (now ev)\<rparr>) s of
               Inl e \<Rightarrow> ((500, failure_body ''Failed to verify payment'' e), s)
             | Inr s' \<Rightarrow>
                 ((200, verified_body (the (req_status r))
                          (t\<lparr>status := the (req_status r), completedAt := Some (now ev)\<rparr>)),
                  settleOrder (orderId t) (the (req_status r)) s')))"

definition webhook_ok :: json where
  "webhook_ok = JObj [(''success'', JBool True), (''message'', JStr ''Webhook processed successfully'')]"

text \<open>\<^verbatim>\<open>paymentWebhook\<close>. The expected signature is taken over the template literal
  \<^verbatim>\<open>`${tid}${status}${amount}`\<close> of the request.\<close>

definition webhookSignature :: "env \<Rightarrow> body \<Rightarrow> string" where
  "webhookSignature ev r =
     hmac_hex (MERCHANT_SECRET ev)
       (template (req_tid r) @ template (req_status r) @ template (req_amount r))"

definition paymentWebhook :: "env \<Rightarrow> body \<Rightarrow> db \<Rightarrow> response \<times> db" where
  "paymentWebhook ev r s =
     (if \<not> truthy (req_tid r) \<or> \<not> truthy (req_status r) then
        ((400, error_body ''Invalid webhook data''), s)
      else case findOne (the (req_tid r)) (transactions s) of
        None \<Rightarrow> ((404, error_body ''Transaction not found''), s)
      | Some t \<Rightarrow>
          if truthy (req_signature r) \<and> the (req_signature r) \<noteq> webhookSignature ev r then
            ((400, error_body ''Invalid signature''), s)
          else if status t = ''pending'' then
            (case saveLoaded ev t
                    (t\<lparr>status := the (req_status r), completedAt := Some (now ev),
                       upiRef := (if truthy (req_upi_ref r) then req_upi_ref r else upiRef t)\<rparr>) s of
               Inl e \<Rightarrow> ((500, failure_body ''Webhook processing failed'' e), s)
             | Inr s' \<Rightarrow> ((200, webhook_ok), settleOrder (orderId t) (the (req_status r)) s'))
          else ((200, webhook_ok), s))"

text \<open>The digits of a non-negative integer in a radix from 2 to 36.\<close>

definition digit :: "int \<Rightarrow> char" where
  "digit n = ''0123456789abcdefghijklmnopqrstuvwxyz'' ! nat n"

function radix :: "int \<Rightarrow> int \<Rightarrow> string" where
  "radix b n = (if b < 2 \<or> n < b then [digit n] else radix b (n div b) @ [digit (n mod b)])"
  by pat_completeness auto
termination
proof (relation "measure (\<lambda>(b, n). nat n)")
  show "wf (measure (\<lambda>(b, n). nat n))" by simp
next
  fix b n :: int
  assume "\<not> (b < 2 \<or> n < b)"
  then have pos: "0 < n" "1 < b" by arith+
  then have "n div b < n" by (rule int_div_less_self)
  moreover have "0 \<le> n div b" using pos by (simp add: pos_imp_zdiv_nonneg_iff)
  ultimately show "((b, n div b), (b, n)) \<in> measure (\<lambda>(b, n). nat n)" by simp
qed

declare radix.simps [simp del]

text \<open>The digits of an integer in a radix, as \<^verbatim>\<open>toString\<close> gives them for an integer
  below \<open>10 ^ 21\<close> in magnitude.\<close>

definition int_text :: "int \<Rightarrow> int \<Rightarrow> string" where
  "int_text b n = (if n < 0 then ''-'' @ radix b (- n) else radix b n)"

definition simulated_body :: "string \<Rightarrow> string \<Rightarrow> transaction \<Rightarrow> json" where
  "simulated_body k st t = JObj [(''success'', JBool True),
     (''message'', JStr (''Payment simulated as '' @ st)),
     (''tid'', JStr k), (''status'', JStr st), (''amount'', JNum (amount t))]"

text \<open>\<^verbatim>\<open>simulatePayment\<close>. Its \<^verbatim>\<open>catch\<close> block sends no \<^verbatim>\<open>message\<close>.\<close>

definition simulatePayment :: "env \<Rightarrow> body \<Rightarrow> db \<Rightarrow> response \<times> db" where
  "simulatePayment ev r s =
     (if \<not> truthy (req_tid r) \<or> \<not> truthy (req_status r) then
        ((400, error_body ''TID and status required''), s)
      else case findOne (the (req_tid r)) (transactions s) of
        None \<Rightarrow> ((404, error_body ''Transaction not found''), s)
      | Some t \<Rightarrow>
          if status t \<noteq> ''pending'' then
            ((400, error_body (''Transaction already '' @ status t)), s)
          else
            (case saveLoaded ev t
                    (t\<lparr>status := the (req_status r), completedAt := Some (now ev),
                       upiRef := Some (''SIM'' @ int_text 10 (ref_time ev))\<rparr>) s of
               Inl e \<Rightarrow> ((500, error_body ''Simulation failed''), s)
             | Inr s' \<Rightarrow>
                 ((200, simulated_body (the (req_tid r)) (the (req_status r)) t),
                  updateOrderPayment (orderId t)
                    (if the (req_status r) = ''success'' then ''paid'' else ''failed'') s')))"


section \<open>JavaScript numbers\<close>

text \<open>
  A Number is an IEEE 754 double: a rational that a double represents, or one of NaN and
  the two infinities. The negative zero is not told apart from zero. Arithmetic computes
  the exact rational and rounds it to the nearest double, ties to the even significand.
\<close>

definition ipow :: "int \<Rightarrow> int \<Rightarrow> rat" where
  "ipow b e = (if 0 \<le> e then of_int (b ^ nat e) else 1 / of_int (b ^ nat (- e)))"

definition floor_log_adjust :: "int \<Rightarrow> rat \<Rightarrow> int \<Rightarrow> int" where
  "floor_log_adjust b x d = (if ipow b d \<le> x then d else d - 1)"

text \<open>The integer part of the logarithm of a positive rational to the base \<open>b\<close>, from
  the digit counts of its numerator and denominator.\<close>

definition floor_log :: "int \<Rightarrow> rat \<Rightarrow> int" where
  "floor_log b x = floor_log_adjust b x
     (int (length (radix b (fst (quotient_of x)))) - int (length (radix b (snd (quotient_of x)))))"

definition nearest_of :: "rat \<Rightarrow> int \<Rightarrow> int" where
  "nearest_of q f =
     (if q - of_int f < 1 / 2 then f
      else if 1 / 2 < q - of_int f then f + 1
      else if even f then f else f + 1)"

definition round_half_even :: "rat \<Rightarrow> int" where
  "round_half_even q = nearest_of q \<lfloor>q\<rfloor>"

text \<open>The unit in the last place of a positive rational: 53 significant bits, and the
  subnormal spacing below the least normal exponent.\<close>

definition ulp :: "rat \<Rightarrow> rat" where
  "ulp x = ipow 2 (max (floor_log 2 x - 52) (- 1074))"

definition to_grid :: "rat \<Rightarrow> rat \<Rightarrow> rat" where
  "to_grid x u = of_int (round_half_even (x / u)) * u"

text \<open>A rounded value of \<open>2 ^ 1024\<close> or more is beyond the largest double.\<close>

definition overflow :: "rat \<Rightarrow> jsnum" where
  "overflow g = (if 1024 \<le> floor_log 2 g then PosInf else Fin g)"

definition round_pos :: "rat \<Rightarrow> jsnum" where
  "round_pos x = overflow (to_grid x (ulp x))"

fun js_neg :: "jsnum \<Rightarrow> jsnum" where
  "js_neg (Fin a) = Fin (- a)"
| "js_neg NaN = NaN"
| "js_neg PosInf = NegInf"
| "js_neg NegInf = PosInf"

definition round_double :: "rat \<Rightarrow> jsnum" where
  "round_double x =
     (if x = 0 then Fin 0 else if 0 < x then round_pos x else js_neg (round_pos (- x)))"

fun js_sign :: "jsnum \<Rightarrow> int" where
  "js_sign (Fin a) = (if a = 0 then 0 else if 0 < a then 1 else - 1)"
| "js_sign NaN = 0"
| "js_sign PosInf = 1"
| "js_sign NegInf = - 1"

fun js_mul :: "jsnum \<Rightarrow> jsnum \<Rightarrow> jsnum" where
  "js_mul (Fin a) (Fin b) = round_double (a * b)"
| "js_mul NaN y = NaN"
| "js_mul x NaN = NaN"
| "js_mul x y =
     (if js_sign x * js_sign y = 0 then NaN
      else if 0 < js_sign x * js_sign y then PosInf else NegInf)"

text \<open>\<^verbatim>\<open>Math.floor\<close>\<close>

fun Math_floor :: "jsnum \<Rightarrow> jsnum" where
  "Math_floor (Fin a) = Fin (of_int \<lfloor>a\<rfloor>)"
| "Math_floor x = x"

text \<open>
  \<^verbatim>\<open>Number.prototype.toString\<close>: the shortest decimal digit string whose value rounds to
  the number, and of those the nearest. A candidate is a digit value \<open>m\<close> with a decimal
  exponent \<open>e\<close>, standing for \<open>m * 10 ^ e\<close>.
\<close>

definition rounds_to :: "rat \<Rightarrow> int \<Rightarrow> int \<Rightarrow> bool" where
  "rounds_to x m e = (round_double (of_int m * ipow 10 e) = Fin x)"

definition nearer :: "rat \<Rightarrow> int \<Rightarrow> int \<Rightarrow> int" where
  "nearer x m e =
     (if x - of_int m * ipow 10 e < of_int (m + 1) * ipow 10 e - x then m
      else if of_int (m + 1) * ipow 10 e - x < x - of_int m * ipow 10 e then m + 1
      else if even m then m else m + 1)"

definition pick_of :: "rat \<Rightarrow> int \<Rightarrow> int \<Rightarrow> bool \<Rightarrow> bool \<Rightarrow> int option" where
  "pick_of x m e lower upper =
     (if lower \<and> upper then Some (nearer x m e)
      else if lower then Some m
      else if upper then Some (m + 1)
      else None)"

definition pick :: "rat \<Rightarrow> int \<Rightarrow> int \<Rightarrow> int option" where
  "pick x m e = pick_of x m e (rounds_to x m e) (rounds_to x (m + 1) e)"

function shortest :: "rat \<Rightarrow> int \<Rightarrow> int \<Rightarrow> int \<times> int"
  and shortest_step :: "rat \<Rightarrow> int \<Rightarrow> int \<Rightarrow> int option \<Rightarrow> int \<times> int" where
  "shortest x e k = shortest_step x e k (pick x \<lfloor>x / ipow 10 e\<rfloor> e)"
| "shortest_step x e k (Some m) = (m, e)"
| "shortest_step x e k None = (if 17 \<le> k then (\<lfloor>x / ipow 10 e\<rfloor>, e) else shortest x (e - 1) (k + 1))"
  by pat_completeness auto
termination
  by (relation "measure (\<lambda>v. case v of Inl (x, e, k) \<Rightarrow> 2 * nat (18 - k) + 1
                              | Inr (x, e, k, p) \<Rightarrow> 2 * nat (18 - k))") auto

declare shortest.simps [simp del] shortest_step.simps [simp del]

function strip_zeros :: "int \<times> int \<Rightarrow> int \<times> int" where
  "strip_zeros (m, e) = (if m \<noteq> 0 \<and> m mod 10 = 0 then strip_zeros (m div 10, e + 1) else (m, e))"
  by pat_completeness auto
termination
  by (relation "measure (\<lambda>(m, e). nat \<bar>m\<bar>)") auto

declare strip_zeros.simps [simp del]

text \<open>The layout of the digits \<open>ds\<close> with the decimal point after \<open>n\<close> of them.\<close>

definition exponent_text :: "int \<Rightarrow> string" where
  "exponent_text n = (if 0 \<le> n then ''e+'' @ radix 10 n else ''e-'' @ radix 10 (- n))"

definition layout :: "string \<Rightarrow> int \<Rightarrow> string" where
  "layout ds n =
     (if int (length ds) \<le> n \<and> n \<le> 21 then ds @ replicate (nat (n - int (length ds))) CHR ''0''
      else if 0 < n \<and> n \<le> 21 then take (nat n) ds @ ''.'' @ drop (nat n) ds
      else if - 6 < n \<and> n \<le> 0 then ''0.'' @ replicate (nat (- n)) CHR ''0'' @ ds
      else if length ds = 1 then ds @ exponent_text (n - 1)
      else take 1 ds @ ''.'' @ drop 1 ds @ exponent_text (n - 1))"

fun layout_pair :: "int \<times> int \<Rightarrow> string" where
  "layout_pair (m, e) = layout (radix 10 m) (int (length (radix 10 m)) + e)"

definition pos_to_string :: "rat \<Rightarrow> string" where
  "pos_to_string x = layout_pair (strip_zeros (shortest x (floor_log 10 x) 1))"

fun to_string :: "jsnum \<Rightarrow> string" where
  "to_string NaN = ''NaN''"
| "to_string PosInf = ''Infinity''"
| "to_string NegInf = ''-Infinity''"
| "to_string (Fin a) =
     (if a = 0 then ''0'' else if 0 < a then pos_to_string a else ''-'' @ pos_to_string (- a))"

text \<open>
  \<^verbatim>\<open>parseFloat\<close> of a string: leading white space is skipped, and the longest prefix
  that is a decimal literal is read; without one the result is NaN.
\<close>

definition is_digit :: "char \<Rightarrow> bool" where
  "is_digit c = (48 \<le> (of_char c :: nat) \<and> (of_char c :: nat) \<le> 57)"

definition is_space :: "char \<Rightarrow> bool" where
  "is_space c = ((of_char c :: nat) \<in> {9, 10, 11, 12, 13, 32})"

fun digits_value :: "int \<Rightarrow> string \<Rightarrow> int" where
  "digits_value acc [] = acc"
| "digits_value acc (c # cs) = digits_value (acc * 10 + (of_char c - 48)) cs"

definition fraction_part :: "string \<Rightarrow> string" where
  "fraction_part r = (case r of [] \<Rightarrow> [] | c # cs \<Rightarrow> if c = CHR ''.'' then takeWhile is_digit cs else [])"

definition after_fraction :: "string \<Rightarrow> string" where
  "after_fraction r = (case r of [] \<Rightarrow> [] | c # cs \<Rightarrow> if c = CHR ''.'' then dropWhile is_digit cs else r)"

definition signed_digits :: "string \<Rightarrow> int option" where
  "signed_digits r =
     (case r of
        [] \<Rightarrow> None
      | c # cs \<Rightarrow>
          if c = CHR ''-'' then (if takeWhile is_digit cs = [] then None
                                 else Some (- digits_value 0 (takeWhile is_digit cs)))
          else if c = CHR ''+'' then (if takeWhile is_digit cs = [] then None
                                      else Some (digits_value 0 (takeWhile is_digit cs)))
          else if takeWhile is_digit r = [] then None
          else Some (digits_value 0 (takeWhile is_digit r)))"

definition exponent_part :: "string \<Rightarrow> int" where
  "exponent_part r =
     (case r of
        [] \<Rightarrow> 0
      | c # cs \<Rightarrow>
          if c = CHR ''e'' \<or> c = CHR ''E'' then (case signed_digits cs of None \<Rightarrow> 0 | Some n \<Rightarrow> n)
          else 0)"

definition decimal_value :: "string \<Rightarrow> string \<Rightarrow> int \<Rightarrow> jsnum" where
  "decimal_value ip fp ex =
     (if ip = [] \<and> fp = [] then NaN
      else round_double (of_int (digits_value 0 (ip @ fp)) * ipow 10 (ex - int (length fp))))"

definition parse_unsigned :: "string \<Rightarrow> jsnum" where
  "parse_unsigned s =
     (if take 8 s = ''Infinity'' then PosInf
      else decimal_value (takeWhile is_digit s) (fraction_part (dropWhile is_digit s))
             (exponent_part (after_fraction (dropWhile is_digit s))))"

definition parse_signed :: "string \<Rightarrow> jsnum" where
  "parse_signed s =
     (case s of
        [] \<Rightarrow> NaN
      | c # cs \<Rightarrow>
          if c = CHR ''-'' then js_neg (parse_unsigned cs)
          else if c = CHR ''+'' then parse_unsigned cs
          else parse_unsigned s)"

text \<open>The field \<^verbatim>\<open>amount\<close> of a creation request is a JSON number, a JSON string, or
  absent. \<^verbatim>\<open>parseFloat\<close> of a number converts it to its digit string and reads that
  back, which gives the number again.\<close>

datatype jsvalue = VUndefined | VNum jsnum | VStr string

fun parseFloat :: "jsvalue \<Rightarrow> jsnum" where
  "parseFloat VUndefined = NaN"
| "parseFloat (VNum x) = x"
| "parseFloat (VStr s) = parse_signed (dropWhile is_space s)"

fun falsy :: "jsvalue \<Rightarrow> bool" where
  "falsy VUndefined = True"
| "falsy (VNum x) = (x = Fin 0 \<or> x = NaN)"
| "falsy (VStr s) = (s = [])"

section \<open>JavaScript strings\<close>

definition is_upper :: "char \<Rightarrow> bool" where
  "is_upper c = (65 \<le> (of_char c :: nat) \<and> (of_char c :: nat) \<le> 90)"

definition is_lower :: "char \<Rightarrow> bool" where
  "is_lower c = (97 \<le> (of_char c :: nat) \<and> (of_char c :: nat) \<le> 122)"

definition is_alnum :: "char \<Rightarrow> bool" where
  "is_alnum c = (is_digit c \<or> is_upper c \<or> is_lower c)"

definition lower_char :: "char \<Rightarrow> char" where
  "lower_char c = (if is_upper c then char_of ((of_char c :: nat) + 32) else c)"

definition toLowerCase :: "string \<Rightarrow> string" where
  "toLowerCase s = map lower_char s"

definition trim :: "string \<Rightarrow> string" where
  "trim s = rev (dropWhile is_space (rev (dropWhile is_space s)))"

fun starts_with :: "string \<Rightarrow> string \<Rightarrow> bool" where
  "starts_with [] s = True"
| "starts_with (p # ps) [] = False"
| "starts_with (p # ps) (c # cs) = (p = c \<and> starts_with ps cs)"

text \<open>\<^verbatim>\<open>/p/.test(s)\<close> for a pattern \<open>p\<close> of literal characters.\<close>

fun test :: "string \<Rightarrow> string \<Rightarrow> bool" where
  "test p [] = (p = [])"
| "test p (c # cs) = (starts_with p (c # cs) \<or> test p cs)"

definition upper_hexdigit :: "nat \<Rightarrow> char" where
  "upper_hexdigit n = ''0123456789ABCDEF'' ! n"

definition percent :: "char \<Rightarrow> string" where
  "percent c = [CHR ''%'', upper_hexdigit ((of_char c :: nat) div 16),
                upper_hexdigit ((of_char c :: nat) mod 16)]"

definition uri_mark :: "char \<Rightarrow> bool" where
  "uri_mark c = (c \<in> set ''-_.!~*()'' \<or> (of_char c :: nat) = 39)"

fun encodeURIComponent :: "string \<Rightarrow> string" where
  "encodeURIComponent [] = []"
| "encodeURIComponent (c # cs) =
     (if is_alnum c \<or> uri_mark c then [c] else percent c) @ encodeURIComponent cs"

text \<open>The serializer of \<^verbatim>\<open>URLSearchParams\<close>: a space becomes a plus sign, letters,
  digits and the characters \<^verbatim>\<open>*-._\<close> stay, every other byte is percent-encoded.\<close>

fun form_encode :: "string \<Rightarrow> string" where
  "form_encode [] = []"
| "form_encode (c # cs) =
     (if c = CHR '' '' then ''+''
      else if is_alnum c \<or> c \<in> set ''*-._'' then [c] else percent c) @ form_encode cs"

fun searchParams :: "(string \<times> string) list \<Rightarrow> string" where
  "searchParams [] = []"
| "searchParams [(k, v)] = form_encode k @ ''='' @ form_encode v"
| "searchParams ((k, v) # p # ps) =
     form_encode k @ ''='' @ form_encode v @ ''&'' @ searchParams (p # ps)"

text \<open>\<^verbatim>\<open>JSON.stringify\<close> of a string and of a number.\<close>

definition json_escape :: "char \<Rightarrow> string" where
  "json_escape c =
     (if (of_char c :: nat) = 34 then [CHR 0x5C, CHR 0x22]
      else if (of_char c :: nat) = 92 then [CHR 0x5C, CHR 0x5C]
      else if (of_char c :: nat) = 8 then [CHR 0x5C, CHR ''b'']
      else if (of_char c :: nat) = 12 then [CHR 0x5C, CHR ''f'']
      else if (of_char c :: nat) = 10 then [CHR 0x5C, CHR ''n'']
      else if (of_char c :: nat) = 13 then [CHR 0x5C, CHR ''r'']
      else if (of_char c :: nat) = 9 then [CHR 0x5C, CHR ''t'']
      else if (of_char c :: nat) < 32 then
        [CHR 0x5C, CHR ''u'', CHR ''0'', CHR ''0'',
         hexdigit (int ((of_char c :: nat) div 16)), hexdigit (int ((of_char c :: nat) mod 16))]
      else [c])"

fun json_chars :: "string \<Rightarrow> string" where
  "json_chars [] = []"
| "json_chars (c # cs) = json_escape c @ json_chars cs"

definition json_string :: "string \<Rightarrow> string" where
  "json_string s = [CHR 0x22] @ json_chars s @ [CHR 0x22]"

fun json_number :: "jsnum \<Rightarrow> string" where
  "json_number (Fin a) = to_string (Fin a)"
| "json_number x = ''null''"

text \<open>\<^verbatim>\<open>Buffer.from(s).toString('base64')\<close>\<close>

definition b64 :: "int \<Rightarrow> char" where
  "b64 n = ''ABCDEFGHIJKLMNOPQRSTUVWXYZabcdefghijklmnopqrstuvwxyz0123456789+/'' ! nat n"

fun base64_bytes :: "int list \<Rightarrow> string" where
  "base64_bytes [] = []"
| "base64_bytes [a] = [b64 (a div 4), b64 (a mod 4 * 16), CHR ''='', CHR ''='']"
| "base64_bytes [a, b] =
     [b64 (a div 4), b64 (a mod 4 * 16 + b div 16), b64 (b mod 16 * 4), CHR ''='']"
| "base64_bytes (a # b # c # bs) =
     [b64 (a div 4), b64 (a mod 4 * 16 + b div 16), b64 (b mod 16 * 4 + c div 64), b64 (c mod 64)]
     @ base64_bytes bs"

definition base64 :: "string \<Rightarrow> string" where
  "base64 s = base64_bytes (bytes_of s)"

section \<open>Creating a payment\<close>

text \<open>The body of a creation request; the \<^verbatim>\<open>user-agent\<close> header is passed beside it.\<close>

record create_body =
  c_amount :: jsvalue
  c_payType :: "string option"
  c_orderId :: "string option"
  c_userId :: "string option"

text \<open>\<^verbatim>\<open>Settings.getSettings\<close>: the one settings document, created with the schema's
  defaults when there is none.\<close>

definition default_settings :: settings where
  "default_settings = \<lparr>merchantUPI = ''mstandwafuelcentre@sbi'',
     merchantSecret = ''my_super_secret_key'', siteName = ''My E-Commerce Store'',
     siteEmail = ''admin@example.com'', settingsVersion = 1\<rparr>"

definition getSettings :: "db \<Rightarrow> settings \<times> db" where
  "getSettings s =
     (case settingsDoc s of
        Some c \<Rightarrow> (c, s)
      | None \<Rightarrow> (default_settings, s\<lparr>settingsDoc := Some default_settings\<rparr>))"

definition generateTransactionId :: "env \<Rightarrow> string" where
  "generateTransactionId ev = ''cw'' @ int_text 36 (id_time ev) @ random_suffix ev"

definition generateNote :: "env \<Rightarrow> string" where
  "generateNote ev = ''s'' @ int_text 10 (random_900 ev + 100)"

text \<open>\<^verbatim>\<open>Math.floor(Date.now() / 1000) + 600\<close>, in seconds.\<close>

definition expiry_seconds :: "env \<Rightarrow> int" where
  "expiry_seconds ev = now ev div 1000 + 600"

definition userAgent :: "string option \<Rightarrow> string" where
  "userAgent ua = (if truthy ua then the ua else [])"

definition isIOS :: "string \<Rightarrow> bool" where
  "isIOS ua = (test ''iPad'' ua \<or> test ''iPhone'' ua \<or> test ''iPod'' ua)"

definition isAndroid :: "string \<Rightarrow> bool" where
  "isAndroid ua = test ''Android'' ua"

text \<open>The object \<^verbatim>\<open>payloadJson\<close> of the PhonePe branch: the fields that vary, and its
  serialization with the fixed ones.\<close>

record phonepe_payload =
  vpa :: string
  p2p_note :: string
  initialAmount :: jsnum

definition phonepe_payloadJson :: "string \<Rightarrow> string \<Rightarrow> jsnum \<Rightarrow> phonepe_payload" where
  "phonepe_payloadJson u n paymentAmount =
     \<lparr>vpa = u, p2p_note = n, initialAmount = Math_floor (js_mul paymentAmount (Fin 100))\<rparr>"

definition stringify_phonepe :: "phonepe_payload \<Rightarrow> string" where
  \<open>stringify_phonepe p =
     ''{"contact":{"cbsName":"","nickName":"","vpa":'' @ json_string (vpa p)
     @ '',"type":"VPA"},"p2pPaymentCheckoutParams":{"note":'' @ json_string (p2p_note p)
     @ '',"isByDefaultKnownContact":true,"initialAmount":'' @ json_number (initialAmount p)
     @ '',"currency":"INR","checkoutType":"DEFAULT","transactionContext":"p2p"}}''\<close>

record payment_bundle =
  b_redirect_url :: string
  b_ios_url :: string
  b_android_url :: string
  b_payload :: string
  b_sig :: string
  b_device :: string

definition phonepe_android_url :: "string \<Rightarrow> string" where
  "phonepe_android_url p = ''phonepe://native?data='' @ encodeURIComponent p @ ''&id=p2ppayment''"

definition phonepe_ios_url :: "string \<Rightarrow> jsnum \<Rightarrow> string \<Rightarrow> string" where
  "phonepe_ios_url u paymentAmount n =
     ''phonepe://pay?pa='' @ encodeURIComponent u @ ''&pn=Merchant&am='' @ to_string paymentAmount
     @ ''&tn='' @ encodeURIComponent n @ ''&cu=INR''"

definition phonepe_bundle :: "env \<Rightarrow> string \<Rightarrow> string \<Rightarrow> jsnum \<Rightarrow> string \<Rightarrow> payment_bundle" where
  "phonepe_bundle ev ua u paymentAmount n =
     \<lparr>b_redirect_url =
        (if isIOS ua then phonepe_ios_url u paymentAmount n
         else phonepe_android_url (base64 (stringify_phonepe (phonepe_payloadJson u n paymentAmount)))),
      b_ios_url = phonepe_ios_url u paymentAmount n,
      b_android_url =
        phonepe_android_url (base64 (stringify_phonepe (phonepe_payloadJson u n paymentAmount))),
      b_payload = base64 (stringify_phonepe (phonepe_payloadJson u n paymentAmount)),
      b_sig = createSignature ev (base64 (stringify_phonepe (phonepe_payloadJson u n paymentAmount))),
      b_device = (if isIOS ua then ''iOS'' else if isAndroid ua then ''Android'' else ''Desktop'')\<rparr>"

definition paytm_query :: "string \<Rightarrow> jsnum \<Rightarrow> string \<Rightarrow> string" where
  "paytm_query u paymentAmount n =
     searchParams [(''pa'', u), (''am'', to_string paymentAmount), (''tn'', n), (''pn'', u),
       (''mc'', []), (''cu'', ''INR''), (''url'', []), (''mode'', []), (''purpose'', []),
       (''orgid'', []), (''sign'', []), (''featuretype'', ''money_transfer'')]"

definition stringify_paytm :: "string \<Rightarrow> string \<Rightarrow> int \<Rightarrow> string" where
  \<open>stringify_paytm redirect t ex =
     ''{"redirect":'' @ json_string redirect @ '',"tid":'' @ json_string t
     @ '',"exp":'' @ int_text 10 ex @ ''}''\<close>

definition paytm_payload :: "env \<Rightarrow> string \<Rightarrow> jsnum \<Rightarrow> string \<Rightarrow> string" where
  "paytm_payload ev u paymentAmount n =
     base64 (stringify_paytm (''paytmmp://cash_wallet?'' @ paytm_query u paymentAmount n)
               (generateTransactionId ev) (expiry_seconds ev))"

definition paytm_bundle :: "env \<Rightarrow> string \<Rightarrow> string \<Rightarrow> jsnum \<Rightarrow> string \<Rightarrow> payment_bundle" where
  "paytm_bundle ev ua u paymentAmount n =
     \<lparr>b_redirect_url = ''paytmmp://cash_wallet?'' @ paytm_query u paymentAmount n,
      b_ios_url = ''paytm://pay?'' @ paytm_query u paymentAmount n,
      b_android_url = ''paytmmp://cash_wallet?'' @ paytm_query u paymentAmount n,
      b_payload = paytm_payload ev u paymentAmount n,
      b_sig = createSignature ev (paytm_payload ev u paymentAmount n),
      b_device = (if isIOS ua then ''ios'' else if isAndroid ua then ''android'' else ''desktop'')\<rparr>"

definition make_bundle :: "env \<Rightarrow> string \<Rightarrow> string \<Rightarrow> string \<Rightarrow> jsnum \<Rightarrow> payment_bundle" where
  "make_bundle ev ua paymentType u paymentAmount =
     (if paymentType = ''phonepe'' then phonepe_bundle ev ua u paymentAmount (generateNote ev)
      else paytm_bundle ev ua u paymentAmount (generateNote ev))"

definition created_body :: "env \<Rightarrow> jsnum \<Rightarrow> payment_bundle \<Rightarrow> json" where
  "created_body ev paymentAmount b = JObj [(''redirect_url'', JStr (b_redirect_url b)),
     (''ios_url'', JStr (b_ios_url b)), (''android_url'', JStr (b_android_url b)),
     (''payload'', JStr (b_payload b)), (''sig'', JStr (b_sig b)),
     (''expires'', JNum (Fin (of_int (expiry_seconds ev)))),
     (''tid'', JStr (generateTransactionId ev)),
     (''amount'', JStr (to_string paymentAmount)), (''device'', JStr (b_device b))]"

text \<open>\<^verbatim>\<open>x || null\<close> for the two optional references.\<close>

definition or_null :: "string option \<Rightarrow> string option" where
  "or_null x = (if truthy x then x else None)"

text \<open>The cast of a reference to ObjectId keeps its twelve bytes, which read back as
  lower-case hexadecimal digits.\<close>

definition castObjectId :: "string option \<Rightarrow> string option" where
  "castObjectId x = map_option toLowerCase x"

text \<open>The document of \<^verbatim>\<open>new Transaction({...})\<close> as it is stored: the handler passes
  neither \<^verbatim>\<open>createdAt\<close> nor \<^verbatim>\<open>updatedAt\<close>, the save stamps both.\<close>

definition new_transaction ::
  "env \<Rightarrow> create_body \<Rightarrow> string \<Rightarrow> string \<Rightarrow> jsnum \<Rightarrow> payment_bundle \<Rightarrow> transaction" where
  "new_transaction ev r paymentType u paymentAmount b =
     \<lparr>tid = generateTransactionId ev, userId = castObjectId (or_null (c_userId r)),
      orderId = castObjectId (or_null (c_orderId r)), amount = paymentAmount, payType = paymentType,
      upi = trim u, status = ''pending'', payload = Some (b_payload b),
      signature = Some (b_sig b), redirectUrl = Some (b_redirect_url b),
      note' = Some (generateNote ev), upiRef = None,
      expires = expiry_seconds ev * 1000, completedAt = None, errorMessage = None,
      createdAt = saved_at ev, updatedAt = saved_at ev\<rparr>"

text \<open>
  Saving a new document. The schema casts the two references of the request to ObjectId
  (taken here as 24 hexadecimal digits), casts the amount to a number, which NaN is not,
  requires the amount to be at least 0 and the trimmed receive-address to be non-empty;
  the unique index on \<open>tid\<close> rejects a second document with the same identifier.
\<close>

definition is_hex :: "char \<Rightarrow> bool" where
  "is_hex c = (is_digit c \<or> c \<in> set ''abcdefABCDEF'')"

definition isObjectId :: "string option \<Rightarrow> bool" where
  "isObjectId x = (case x of None \<Rightarrow> True | Some i \<Rightarrow> length i = 24 \<and> list_all is_hex i)"

fun at_least_zero :: "jsnum \<Rightarrow> bool" where
  "at_least_zero (Fin a) = (0 \<le> a)"
| "at_least_zero PosInf = True"
| "at_least_zero x = False"

definition validateNew :: "create_body \<Rightarrow> transaction \<Rightarrow> exn option" where
  "validateNew r d =
     (if \<not> isObjectId (or_null (c_userId r)) then Some (CastError ''userId'')
      else if \<not> isObjectId (or_null (c_orderId r)) then Some (CastError ''orderId'')
      else if amount d = NaN then Some (CastError ''amount'')
      else if \<not> at_least_zero (amount d) then Some (ValidationError ''amount'')
      else if upi d = [] then Some (ValidationError ''upi'')
      else None)"

definition saveNew :: "create_body \<Rightarrow> transaction \<Rightarrow> db \<Rightarrow> exn + db" where
  "saveNew r d s =
     (case validateNew r d of
        Some e \<Rightarrow> Inl e
      | None \<Rightarrow>
          if findOne (tid d) (transactions s) \<noteq> None then Inl (DuplicateKey ''tid'')
          else Inr (s\<lparr>transactions := transactions s @ [d]\<rparr>))"

definition paymentType :: "create_body \<Rightarrow> string" where
  "paymentType r = trim (toLowerCase (the (c_payType r)))"

definition store_payment ::
  "env \<Rightarrow> create_body \<Rightarrow> jsnum \<Rightarrow> string \<Rightarrow> payment_bundle \<Rightarrow> db \<Rightarrow> response \<times> db" where
  "store_payment ev r paymentAmount u b s =
     (case saveNew r (new_transaction ev r (paymentType r) u paymentAmount b) s of
        Inl e \<Rightarrow> ((500, failure_body ''Failed to create payment'' e), s)
      | Inr s' \<Rightarrow> ((200, created_body ev paymentAmount b), s'))"

definition issue_payment ::
  "env \<Rightarrow> string option \<Rightarrow> create_body \<Rightarrow> settings \<times> db \<Rightarrow> response \<times> db" where
  "issue_payment ev ua r cfg =
     store_payment ev r (parseFloat (c_amount r)) (merchantUPI (fst cfg))
       (make_bundle ev (userAgent ua) (paymentType r) (merchantUPI (fst cfg))
          (parseFloat (c_amount r)))
       (snd cfg)"

text \<open>\<^verbatim>\<open>createPayment\<close>\<close>

definition createPayment :: "env \<Rightarrow> string option \<Rightarrow> create_body \<Rightarrow> db \<Rightarrow> response \<times> db" where
  "createPayment ev ua r s =
     (if falsy (c_amount r) \<or> \<not> truthy (c_payType r) then
        ((400, error_body ''Invalid payload''), s)
      else if paymentType r \<notin> {''phonepe'', ''paytm''} then
        ((400, error_body ''Unsupported payment type''), s)
      else issue_payment ev ua r (getSettings s))"

section \<open>Two requests in flight\<close>

text \<open>
  A handler is suspended at each \<^verbatim>\<open>await\<close>, and another request may run in between.
  \<open>verify_load\<close> is \<^verbatim>\<open>verifyPayment\<close> up to the test of the loaded document's
  status; \<open>verify_store\<close> is the rest, run on the document loaded earlier and on the
  database as it is by then. The save writes the paths modified since the load; the
  filter of the write is the document's identity alone. \<open>webhook_load\<close> and
  \<open>webhook_store\<close> split \<^verbatim>\<open>paymentWebhook\<close> at the same place.
\<close>

definition verify_load :: "env \<Rightarrow> body \<Rightarrow> db \<Rightarrow> response + transaction" where
  "verify_load ev r s =
     (if \<not> truthy (req_tid r) \<or> \<not> truthy (req_status r) then
        Inl (400, error_body ''Transaction ID and status are required'')
      else case findOne (the (req_tid r)) (transactions s) of
        None \<Rightarrow> Inl (404, error_body ''Transaction not found'')
      | Some t \<Rightarrow>
          if truthy (req_signature r) \<and> payload t = None then
            Inl (500, failure_body ''Failed to verify payment'' TypeError)
          else if truthy (req_signature r)
                  \<and> the (req_signature r) \<noteq> createSignature ev (the (payload t)) then
            Inl (400, error_body ''Invalid signature'')
          else if status t \<noteq> ''pending'' then
            Inl (400, error_body (''Transaction already '' @ status t))
          else Inr t)"

definition verify_store :: "env \<Rightarrow> body \<Rightarrow> transaction \<Rightarrow> db \<Rightarrow> response \<times> db" where
  "verify_store ev r t s =
     (case saveLoaded ev t (t\<lparr>status := the (req_status r), completedAt := Some (now ev)\<rparr>) s of
        Inl e \<Rightarrow> ((500, failure_body ''Failed to verify payment'' e), s)
      | Inr s' \<Rightarrow>
          ((200, verified_body (the (req_status r))
                   (t\<lparr>status := the (req_status r), completedAt := Some (now ev)\<rparr>)),
           settleOrder (orderId t) (the (req_status r)) s'))"

definition webhook_load :: "env \<Rightarrow> body \<Rightarrow> db \<Rightarrow> response + transaction" where
  "webhook_load ev r s =
     (if \<not> truthy (req_tid r) \<or> \<not> truthy (req_status r) then
        Inl (400, error_body ''Invalid webhook data'')
      else case findOne (the (req_tid r)) (transactions s) of
        None \<Rightarrow> Inl (404, error_body ''Transaction not found'')
      | Some t \<Rightarrow>
          if truthy (req_signature r) \<and> the (req_signature r) \<noteq> webhookSignature ev r then
            Inl (400, error_body ''Invalid signature'')
          else if status t = ''pending'' then Inr t
          else Inl (200, webhook_ok))"

definition webhook_store :: "env \<Rightarrow> body \<Rightarrow> transaction \<Rightarrow> db \<Rightarrow> response \<times> db" where
  "webhook_store ev r t s =
     (case saveLoaded ev t
             (t\<lparr>status := the (req_status r), completedAt := Some (now ev),
                upiRef := (if truthy (req_upi_ref r) then req_upi_ref r else upiRef t)\<rparr>) s of
        Inl e \<Rightarrow> ((500, failure_body ''Webhook processing failed'' e), s)
      | Inr s' \<Rightarrow> ((200, webhook_ok), settleOrder (orderId t) (the (req_status r)) s'))"

section \<open>Sample data\<close>

definition sample_env :: env where
  "sample_env = \<lparr>now = 1700000000000, id_time = 1700000000000, ref_time = 1700000000000,
     saved_at = 1700000000002, process_env_MERCHANT_SECRET = None,
     random_suffix = ''k3j9x2m1q8z'', random_900 = 421\<rparr>"

definition sample_txn :: transaction where
  "sample_txn = \<lparr>tid = ''cwloyw3v5n'', userId = None, orderId = None, amount = Fin 250,
     payType = ''paytm'', upi = ''merchant@upi'', status = ''pending'',
     payload = Some ''cGF5bG9hZA=='', signature = None, redirectUrl = None,
     note' = Some ''s521'', upiRef = None, expires = 1700000600000, completedAt = None,
     errorMessage = None, createdAt = 1700000000000, updatedAt = 1700000000000\<rparr>"

definition sample_db :: db where
  "sample_db = \<lparr>transactions = [sample_txn], orders = [], settingsDoc = None\<rparr>"

definition sample_body :: body where
  "sample_body = \<lparr>req_tid = Some ''cwloyw3v5n'', req_status = Some ''success'',
     req_signature = None, req_amount = Some ''250'', req_upi_ref = None\<rparr>"


definition create_env :: env where
  "create_env = \<lparr>now = 1700000000123, id_time = 1700000000123, ref_time = 1700000000123,
     saved_at = 1700000000131, process_env_MERCHANT_SECRET = None,
     random_suffix = ''k3j9x2m1q8z'', random_900 = 421\<rparr>"

definition paytm_body :: create_body where
  "paytm_body = \<lparr>c_amount = VNum (Fin 250), c_payType = Some ''Paytm '',
     c_orderId = None, c_userId = None\<rparr>"

definition phonepe_body :: create_body where
  "phonepe_body = \<lparr>c_amount = VStr ''0.29'', c_payType = Some ''phonepe'',
     c_orderId = None, c_userId = None\<rparr>"

definition empty_db :: db where
  "empty_db = \<lparr>transactions = [], orders = [], settingsDoc = None\<rparr>"


text \<open>Reading a field of a response body.\<close>

fun field :: "string \<Rightarrow> json \<Rightarrow> json option" where
  "field k (JObj ms) = map_of ms k"
| "field k j = None"

text \<open>The spec's words for the minor units of an amount: the amount times 100, rounded to
  the nearest integer.\<close>

definition spec_minor_units :: "rat \<Rightarrow> int" where
  "spec_minor_units a = round (a * 100)"

section \<open>Facts about the signature engine\<close>

lemma length_hex: "length (hex bs) = 2 * length bs"
  by (induction bs) simp_all

lemma length_state_bytes: "length (state_bytes st) = 32"
  by (cases st rule: state_bytes.cases) (simp add: word_bytes_def)

lemma length_sha256_bytes: "length (sha256_bytes bs) = 32"
  by (simp add: sha256_bytes_def length_state_bytes)

lemma length_hmac_hex: "length (hmac_hex key msg) = 64"
  by (simp add: hmac_hex_def hmac_sha256_def length_hex length_sha256_bytes)



lemma createSignature_length: "length (createSignature ev p) = 64"
  by (simp add: createSignature_def length_hmac_hex)

lemma webhookSignature_length: "length (webhookSignature ev r) = 64"
  by (simp add: webhookSignature_def length_hmac_hex)

section \<open>Facts about the persistence layer\<close>

lemma findOne_tid: "findOne k ts = Some t \<Longrightarrow> tid t = k"
  by (induction ts) (auto split: if_splits)

lemma tid_writeModified: "tid (writeModified t d stamp x) = tid x"
  by (simp add: writeModified_def)

lemma findOne_updateOne:
  "findOne k ts = Some t \<Longrightarrow>
   findOne k (updateOne t d stamp ts) = Some (writeModified t d stamp t)"
  by (induction ts) (auto simp: tid_writeModified dest: findOne_tid split: if_splits)

lemma writeModified_loaded:
  "writeModified t d stamp t
     = t\<lparr>status := status d, completedAt := completedAt d, upiRef := upiRef d,
         updatedAt := stamp\<rparr>"
  by (simp add: writeModified_def)

lemma transactions_settleOrder: "transactions (settleOrder oid st s) = transactions s"
  by (simp add: settleOrder_def split: option.splits)

lemma transactions_updateOrderPayment: "transactions (updateOrderPayment oid ps s) = transactions s"
  by (simp add: updateOrderPayment_def split: option.splits)

lemma verifyPayment_phases:
  "verifyPayment ev r s =
     (case verify_load ev r s of Inl resp \<Rightarrow> (resp, s) | Inr t \<Rightarrow> verify_store ev r t s)"
  by (auto simp: verifyPayment_def verify_load_def verify_store_def split: option.splits)

lemma paymentWebhook_phases:
  "paymentWebhook ev r s =
     (case webhook_load ev r s of Inl resp \<Rightarrow> (resp, s) | Inr t \<Rightarrow> webhook_store ev r t s)"
  by (auto simp: paymentWebhook_def webhook_load_def webhook_store_def split: option.splits)


lemma saveLoaded_ok:
  "status d \<in> set statusEnum \<Longrightarrow> d \<noteq> t \<Longrightarrow>
   saveLoaded ev t d s = Inr (s\<lparr>transactions := updateOne t d (saved_at ev) (transactions s)\<rparr>)"
  by (simp add: saveLoaded_def validateStatus_def)

lemma saveLoaded_rejected:
  "status d \<notin> set statusEnum \<Longrightarrow> saveLoaded ev t d s = Inl (ValidationError ''status'')"
  by (simp add: saveLoaded_def validateStatus_def)

lemma differs: "status d \<noteq> status t \<Longrightarrow> (d = t) = False"
  by auto

section \<open>The claims\<close>

lemma truthy_Some [simp]: "truthy (Some x) = (x \<noteq> [])"
  by (simp add: truthy_def)

lemma truthy_None [simp]: "truthy None = False"
  by (simp add: truthy_def)

lemma in_statusEnum: "x \<in> set statusEnum \<longleftrightarrow> x = ''pending'' \<or> x = ''success'' \<or> x = ''failed'' \<or> x = ''expired''"
  by (auto simp: statusEnum_def)

text \<open>
  C10. Without a signature field nothing is verified: on a pending transaction a verify
  request that carries only the identifier and a terminal status is answered with 200 and
  the stored document takes that status and the completion time. The simulate handler
  gives the same result whatever the signature field holds, and applies the transition
  too. Knowing the identifier is enough to resolve a payment.
\<close>

theorem resolve_without_signature:
  assumes "findOne k (transactions s) = Some t" and "status t = ''pending''"
    and "req_tid r = Some k" and "k \<noteq> []" and "req_status r = Some st"
    and "st \<in> {''success'', ''failed'', ''expired''}" and "req_signature r = None"
  shows "fst (fst (verifyPayment ev r s)) = 200
       \<and> findOne k (transactions (snd (verifyPayment ev r s)))
           = Some (t\<lparr>status := st, completedAt := Some (now ev), updatedAt := saved_at ev\<rparr>)
       \<and> simulatePayment ev (r\<lparr>req_signature := x\<rparr>) s = simulatePayment ev r s
       \<and> fst (fst (simulatePayment ev (r\<lparr>req_signature := x\<rparr>) s)) = 200
       \<and> findOne k (transactions (snd (simulatePayment ev (r\<lparr>req_signature := x\<rparr>) s)))
           = Some (t\<lparr>status := st, completedAt := Some (now ev),
                     upiRef := Some (''SIM'' @ int_text 10 (ref_time ev)),
                     updatedAt := saved_at ev\<rparr>)"
proof -
  have st: "st \<noteq> []" "st \<in> set statusEnum" "st \<noteq> ''pending''"
    using assms(6) by (auto simp: in_statusEnum)
  have v: "verifyPayment ev r s =
      ((200, verified_body st (t\<lparr>status := st, completedAt := Some (now ev)\<rparr>)),
       settleOrder (orderId t) st
         (s\<lparr>transactions := updateOne t (t\<lparr>status := st, completedAt := Some (now ev)\<rparr>)
               (saved_at ev) (transactions s)\<rparr>))"
    using assms st by (simp add: verifyPayment_def saveLoaded_def validateStatus_def differs)
  have sim_eq: "simulatePayment ev (r\<lparr>req_signature := x\<rparr>) s = simulatePayment ev r s"
    by (simp add: simulatePayment_def cong: option.case_cong sum.case_cong if_cong)
  have m: "simulatePayment ev r s =
      ((200, simulated_body k st t),
       updateOrderPayment (orderId t) (if st = ''success'' then ''paid'' else ''failed'')
         (s\<lparr>transactions := updateOne t (t\<lparr>status := st, completedAt := Some (now ev),
               upiRef := Some (''SIM'' @ int_text 10 (ref_time ev))\<rparr>)
               (saved_at ev) (transactions s)\<rparr>))"
    using assms st by (simp add: simulatePayment_def saveLoaded_def validateStatus_def differs)
  show ?thesis
    using assms(1)
    by (simp add: v sim_eq m transactions_settleOrder transactions_updateOrderPayment
        findOne_updateOne writeModified_loaded)
qed

theorem resolve_without_signature_witness:
  "findOne ''cwloyw3v5n'' (transactions sample_db) = Some sample_txn
   \<and> status sample_txn = ''pending''
   \<and> req_tid sample_body = Some ''cwloyw3v5n''
   \<and> req_status sample_body = Some ''success''
   \<and> req_signature sample_body = None
   \<and> fst (fst (verifyPayment sample_env sample_body sample_db)) = 200
   \<and> findOne ''cwloyw3v5n'' (transactions (snd (verifyPayment sample_env sample_body sample_db)))
       = Some (sample_txn\<lparr>status := ''success'', completedAt := Some (now sample_env),
                 updatedAt := saved_at sample_env\<rparr>)
   \<and> fst (fst (simulatePayment sample_env (sample_body\<lparr>req_signature := Some ''x''\<rparr>) sample_db)) = 200"
proof -
  have h: "findOne ''cwloyw3v5n'' (transactions sample_db) = Some sample_txn"
    "status sample_txn = ''pending''" "req_tid sample_body = Some ''cwloyw3v5n''"
    "''cwloyw3v5n'' \<noteq> []" "req_status sample_body = Some ''success''"
    "''success'' \<in> {''success'', ''failed'', ''expired''}" "req_signature sample_body = None"
    by (simp_all add: sample_db_def sample_txn_def sample_body_def)
  show ?thesis
    using h resolve_without_signature [OF h, of sample_env "Some ''x''"] by blast
qed


text \<open>
  C1. The lazy expiry of the status handler: on a pending transaction read after its
  expiry the stored document becomes expired and nothing else of it changes but the audit
  timestamp. Its completion time stays what it was, so a document that was pending without
  a completion time is expired without one.
\<close>

theorem checkPaymentStatus_expiry_keeps_completedAt:
  assumes "findOne k (transactions s) = Some t" and "k \<noteq> []"
    and "status t = ''pending''" and "now ev > expires t"
  shows "fst (fst (checkPaymentStatus ev k s)) = 200
       \<and> findOne k (transactions (snd (checkPaymentStatus ev k s)))
           = Some (t\<lparr>status := ''expired'', updatedAt := saved_at ev\<rparr>)
       \<and> completedAt (t\<lparr>status := ''expired'', updatedAt := saved_at ev\<rparr>) = completedAt t"
proof -
  have "checkPaymentStatus ev k s =
      ((200, status_body (t\<lparr>status := ''expired''\<rparr>)),
       updateOrderPayment (orderId t) ''failed''
         (s\<lparr>transactions := updateOne t (t\<lparr>status := ''expired''\<rparr>) (saved_at ev)
               (transactions s)\<rparr>))"
    using assms by (simp add: checkPaymentStatus_def saveLoaded_ok in_statusEnum differs)
  then show ?thesis
    using assms(1)
    by (simp add: transactions_updateOrderPayment findOne_updateOne writeModified_loaded)
qed

theorem checkPaymentStatus_expiry_keeps_completedAt_witness:
  "findOne ''cwloyw3v5n'' (transactions sample_db) = Some sample_txn
   \<and> status sample_txn = ''pending''
   \<and> now (sample_env\<lparr>now := 1700000600001\<rparr>) > expires sample_txn
   \<and> fst (fst (checkPaymentStatus (sample_env\<lparr>now := 1700000600001\<rparr>) ''cwloyw3v5n'' sample_db)) = 200
   \<and> findOne ''cwloyw3v5n''
        (transactions (snd (checkPaymentStatus (sample_env\<lparr>now := 1700000600001\<rparr>) ''cwloyw3v5n'' sample_db)))
       = Some (sample_txn\<lparr>status := ''expired'',
                 updatedAt := saved_at (sample_env\<lparr>now := 1700000600001\<rparr>)\<rparr>)
   \<and> completedAt sample_txn = None"
proof -
  have h: "findOne ''cwloyw3v5n'' (transactions sample_db) = Some sample_txn"
    "''cwloyw3v5n'' \<noteq> []" "status sample_txn = ''pending''"
    "now (sample_env\<lparr>now := 1700000600001\<rparr>) > expires sample_txn"
    by (simp_all add: sample_db_def sample_txn_def sample_env_def)
  have c: "completedAt sample_txn = None" by (simp add: sample_txn_def)
  show ?thesis
    using h c checkPaymentStatus_expiry_keeps_completedAt [OF h] by blast
qed

text \<open>
  C2, as the code has it. The only constraint on the reported status is the schema's
  enumeration pending, success, failed, expired, checked when the document is saved. On a
  pending transaction a reported status outside the enumeration changes nothing in the
  database and the call is answered with 400 or 500; when no signature is sent and the
  status is not empty the answer is the handler's general failure, 500, carrying the
  validation error of the path \<open>status\<close>.
\<close>

theorem resolve_status_outside_enum:
  assumes "findOne k (transactions s) = Some t" and "status t = ''pending''"
    and "req_tid r = Some k" and "req_status r = Some st" and "st \<notin> set statusEnum"
  shows "snd (verifyPayment ev r s) = s \<and> fst (fst (verifyPayment ev r s)) \<in> {400, 500}
       \<and> snd (paymentWebhook ev r s) = s \<and> fst (fst (paymentWebhook ev r s)) \<in> {400, 500}
       \<and> snd (simulatePayment ev r s) = s \<and> fst (fst (simulatePayment ev r s)) \<in> {400, 500}
       \<and> (req_signature r = None \<and> k \<noteq> [] \<and> st \<noteq> [] \<longrightarrow>
            fst (verifyPayment ev r s)
              = (500, failure_body ''Failed to verify payment'' (ValidationError ''status''))
          \<and> fst (paymentWebhook ev r s)
              = (500, failure_body ''Webhook processing failed'' (ValidationError ''status''))
          \<and> fst (simulatePayment ev r s) = (500, error_body ''Simulation failed''))"
  using assms
  by (simp add: verifyPayment_def paymentWebhook_def simulatePayment_def saveLoaded_rejected)

theorem resolve_status_outside_enum_witness:
  "findOne ''cwloyw3v5n'' (transactions sample_db) = Some sample_txn
   \<and> status sample_txn = ''pending''
   \<and> req_tid (sample_body\<lparr>req_status := Some ''refunded''\<rparr>) = Some ''cwloyw3v5n''
   \<and> req_status (sample_body\<lparr>req_status := Some ''refunded''\<rparr>) = Some ''refunded''
   \<and> ''refunded'' \<notin> set statusEnum
   \<and> snd (verifyPayment sample_env (sample_body\<lparr>req_status := Some ''refunded''\<rparr>) sample_db) = sample_db
   \<and> fst (fst (verifyPayment sample_env (sample_body\<lparr>req_status := Some ''refunded''\<rparr>) sample_db)) \<in> {400, 500}"
proof -
  have h: "findOne ''cwloyw3v5n'' (transactions sample_db) = Some sample_txn"
    "status sample_txn = ''pending''"
    "req_tid (sample_body\<lparr>req_status := Some ''refunded''\<rparr>) = Some ''cwloyw3v5n''"
    "req_status (sample_body\<lparr>req_status := Some ''refunded''\<rparr>) = Some ''refunded''"
    "''refunded'' \<notin> set statusEnum"
    by (simp_all add: sample_db_def sample_txn_def sample_body_def statusEnum_def)
  show ?thesis
    using h resolve_status_outside_enum [OF h, of sample_env] by blast
qed

text \<open>
  C2 as stated fails: a verify request that reports the status expired, which is not one
  of success and failed, is answered with 200 and the transaction is stored as expired.
\<close>

theorem verify_accepts_expired:
  "''expired'' \<notin> {''success'', ''failed''}
   \<and> fst (fst (verifyPayment sample_env (sample_body\<lparr>req_status := Some ''expired''\<rparr>) sample_db)) = 200
   \<and> map status (transactions
        (snd (verifyPayment sample_env (sample_body\<lparr>req_status := Some ''expired''\<rparr>) sample_db)))
       = [''expired'']"
  by (simp add: verifyPayment_def sample_db_def sample_txn_def sample_body_def sample_env_def
      saveLoaded_def validateStatus_def statusEnum_def settleOrder_def writeModified_def)





text \<open>
  C6. Two verify requests for the same pending transaction, one reporting success and one
  reporting failed, each load the document before either saves. Both loads pass the test
  of the status, both saves are accepted, both requests are answered with 200, and the
  stored status is that of the later save.
\<close>

theorem two_verifies_both_succeed:
  "verify_load sample_env sample_body sample_db = Inr sample_txn
   \<and> verify_load sample_env (sample_body\<lparr>req_status := Some ''failed''\<rparr>) sample_db = Inr sample_txn
   \<and> fst (fst (verify_store sample_env sample_body sample_txn sample_db)) = 200
   \<and> fst (fst (verify_store (sample_env\<lparr>now := 1700000000007\<rparr>)
                 (sample_body\<lparr>req_status := Some ''failed''\<rparr>) sample_txn
                 (snd (verify_store sample_env sample_body sample_txn sample_db)))) = 200
   \<and> map status (transactions (snd (verify_store (sample_env\<lparr>now := 1700000000007\<rparr>)
                 (sample_body\<lparr>req_status := Some ''failed''\<rparr>) sample_txn
                 (snd (verify_store sample_env sample_body sample_txn sample_db))))) = [''failed'']"
  by (simp add: verify_load_def verify_store_def sample_db_def sample_txn_def sample_body_def
      sample_env_def saveLoaded_def validateStatus_def statusEnum_def settleOrder_def writeModified_def)


theorem two_verifies_both_succeed_witness:
  "verify_load sample_env sample_body sample_db = Inr sample_txn
   \<and> verify_load sample_env (sample_body\<lparr>req_status := Some ''failed''\<rparr>) sample_db = Inr sample_txn
   \<and> fst (fst (verify_store sample_env sample_body sample_txn sample_db)) = 200"
  using two_verifies_both_succeed by blast

lemma hmac_sample_payload:
  "hmac_hex ''my_super_secret_key'' ''cGF5bG9hZA==''
     = ''0f7fa888bf1a916587453aeaa756d9b31d2f784fa605846979e43c7f02fae195''"
  by code_simp

lemma hmac_sample_webhook:
  "hmac_hex ''my_super_secret_key'' ''cwloyw3v5nsuccess250''
     = ''62db6ea5b2cf998da24115158d2eef08c85b8caa569e1d8138100fe2871378da''"
  by code_simp

lemma short_is_no_signature: "length x \<noteq> 64 \<Longrightarrow> x \<noteq> hmac_hex key msg"
  using length_hmac_hex [of key msg] by auto

text \<open>
  C3, as the code has it. When a non-empty signature is sent, verify compares it with the
  HMAC of the stored payload and the webhook compares it with the HMAC of the request's
  identifier, status and amount written one after the other, both under the process-wide
  secret; a signature that differs is answered with 400 "Invalid signature" and the
  database is unchanged. Simulate never reads the field.
\<close>

theorem signature_mismatch:
  assumes "findOne k (transactions s) = Some t"
    and "req_tid r = Some k" and "k \<noteq> []" and "req_status r = Some st" and "st \<noteq> []"
    and "req_signature r = Some sg" and "sg \<noteq> []"
  shows "(payload t = Some p \<and> sg \<noteq> hmac_hex (MERCHANT_SECRET ev) p \<longrightarrow>
            verifyPayment ev r s = ((400, error_body ''Invalid signature''), s))
       \<and> (sg \<noteq> hmac_hex (MERCHANT_SECRET ev) (k @ st @ template (req_amount r)) \<longrightarrow>
            paymentWebhook ev r s = ((400, error_body ''Invalid signature''), s))
       \<and> simulatePayment ev r s = simulatePayment ev (r\<lparr>req_signature := None\<rparr>) s"
proof -
  have "simulatePayment ev r s = simulatePayment ev (r\<lparr>req_signature := None\<rparr>) s"
    by (simp add: simulatePayment_def cong: option.case_cong sum.case_cong if_cong)
  then show ?thesis
    using assms
    by (simp add: verifyPayment_def paymentWebhook_def createSignature_def webhookSignature_def
        template_def)
qed

theorem signature_mismatch_witness:
  "findOne ''cwloyw3v5n'' (transactions sample_db) = Some sample_txn
   \<and> req_tid (sample_body\<lparr>req_signature := Some ''0000''\<rparr>) = Some ''cwloyw3v5n''
   \<and> req_status (sample_body\<lparr>req_signature := Some ''0000''\<rparr>) = Some ''success''
   \<and> req_signature (sample_body\<lparr>req_signature := Some ''0000''\<rparr>) = Some ''0000''
   \<and> payload sample_txn = Some ''cGF5bG9hZA==''
   \<and> ''0000'' \<noteq> hmac_hex (MERCHANT_SECRET sample_env) ''cGF5bG9hZA==''
   \<and> verifyPayment sample_env (sample_body\<lparr>req_signature := Some ''0000''\<rparr>) sample_db
       = ((400, error_body ''Invalid signature''), sample_db)
   \<and> paymentWebhook sample_env (sample_body\<lparr>req_signature := Some ''0000''\<rparr>) sample_db
       = ((400, error_body ''Invalid signature''), sample_db)"
proof -
  have h: "findOne ''cwloyw3v5n'' (transactions sample_db) = Some sample_txn"
    "req_tid (sample_body\<lparr>req_signature := Some ''0000''\<rparr>) = Some ''cwloyw3v5n''"
    "''cwloyw3v5n'' \<noteq> []"
    "req_status (sample_body\<lparr>req_signature := Some ''0000''\<rparr>) = Some ''success''"
    "''success'' \<noteq> []"
    "req_signature (sample_body\<lparr>req_signature := Some ''0000''\<rparr>) = Some ''0000''"
    "''0000'' \<noteq> []"
    by (simp_all add: sample_db_def sample_txn_def sample_body_def)
  have p: "payload sample_txn = Some ''cGF5bG9hZA==''" by (simp add: sample_txn_def)
  have n: "''0000'' \<noteq> hmac_hex (MERCHANT_SECRET sample_env) m" for m
    by (rule short_is_no_signature) simp
  show ?thesis
    using h p n signature_mismatch [OF h, of "''cGF5bG9hZA==''" sample_env] by blast
qed

text \<open>
  C3 as stated fails. The webhook is sent the HMAC of its identifier, status and amount.
  That signature differs from the HMAC of the stored payload, yet the request is answered
  with 200 and the transaction is stored as success.
\<close>

theorem webhook_signature_not_over_payload:
  "''62db6ea5b2cf998da24115158d2eef08c85b8caa569e1d8138100fe2871378da''
     \<noteq> createSignature sample_env (the (payload sample_txn))
   \<and> fst (fst (paymentWebhook sample_env
        (sample_body\<lparr>req_signature :=
           Some ''62db6ea5b2cf998da24115158d2eef08c85b8caa569e1d8138100fe2871378da''\<rparr>) sample_db)) = 200
   \<and> map status (transactions (snd (paymentWebhook sample_env
        (sample_body\<lparr>req_signature :=
           Some ''62db6ea5b2cf998da24115158d2eef08c85b8caa569e1d8138100fe2871378da''\<rparr>) sample_db)))
       = [''success'']"
  by (simp add: paymentWebhook_def createSignature_def webhookSignature_def template_def
      MERCHANT_SECRET_def sample_db_def sample_txn_def sample_body_def sample_env_def
      hmac_sample_payload hmac_sample_webhook saveLoaded_def validateStatus_def statusEnum_def
      settleOrder_def writeModified_def)

section \<open>Facts about creation\<close>

lemma transactions_getSettings: "transactions (snd (getSettings s)) = transactions s"
  by (simp add: getSettings_def split: option.splits)

lemma parseFloat_truthy: "parseFloat v = Fin a \<Longrightarrow> a \<noteq> 0 \<Longrightarrow> \<not> falsy v"
  by (cases v) (auto simp: parse_signed_def)

lemma trim_Nil: "trim [] = []"
  by (simp add: trim_def)

lemma paymentType_truthy:
  "c_payType r = Some pt \<Longrightarrow> paymentType r \<in> {''phonepe'', ''paytm''} \<Longrightarrow> truthy (c_payType r)"
  by (auto simp: paymentType_def toLowerCase_def trim_Nil truthy_def)

lemma createPayment_stores:
  assumes "c_payType r = Some pt" and "paymentType r \<in> {''phonepe'', ''paytm''}"
    and "parseFloat (c_amount r) = Fin a" and "0 < a"
    and "isObjectId (or_null (c_userId r))" and "isObjectId (or_null (c_orderId r))"
    and "trim (merchantUPI (fst (getSettings s))) \<noteq> []"
    and "findOne (generateTransactionId ev) (transactions s) = None"
  shows "createPayment ev ua r s =
     ((200, created_body ev (Fin a)
              (make_bundle ev (userAgent ua) (paymentType r) (merchantUPI (fst (getSettings s))) (Fin a))),
      (snd (getSettings s))\<lparr>transactions := transactions s @
         [new_transaction ev r (paymentType r) (merchantUPI (fst (getSettings s))) (Fin a)
            (make_bundle ev (userAgent ua) (paymentType r) (merchantUPI (fst (getSettings s))) (Fin a))]\<rparr>)"
proof -
  have "a \<noteq> 0" using assms(4) by simp
  with assms(3) have t1: "\<not> falsy (c_amount r)" by (rule parseFloat_truthy)
  have t2: "truthy (c_payType r)" using assms(1,2) by (rule paymentType_truthy)
  note t = t1 t2
  have v: "validateNew r (new_transaction ev r (paymentType r) (merchantUPI (fst (getSettings s))) (Fin a) b) = None" for b
    using assms(4-7) by (simp add: validateNew_def new_transaction_def)
  have f: "tid (new_transaction ev r p u x b) = generateTransactionId ev" for p u x b
    by (simp add: new_transaction_def)
  show ?thesis
    using t assms(2,3,8)
    by (simp add: createPayment_def issue_payment_def store_payment_def saveNew_def v f
        transactions_getSettings)
qed


lemma bundle_signature:
  "b_sig (make_bundle ev ua p u x) = hmac_hex (MERCHANT_SECRET ev) (b_payload (make_bundle ev ua p u x))"
  by (simp add: make_bundle_def phonepe_bundle_def paytm_bundle_def createSignature_def)



lemma paytm_body_type: "paymentType paytm_body = ''paytm''"
  by code_simp

lemma phonepe_body_type: "paymentType phonepe_body = ''phonepe''"
  by code_simp

lemma phonepe_body_amount:
  "parseFloat (c_amount phonepe_body) = Fin (5224175567749775 / 18014398509481984)"
  by code_simp

lemma default_upi_trimmed: "trim (merchantUPI default_settings) \<noteq> []"
  by code_simp

text \<open>
  C5, as the code has it. For an amount above zero and a payment type that is phonepe or
  paytm after lower-casing and trimming, with the two optional references absent or
  well-formed, a configured receive-address that is not blank and a generated identifier
  not yet in use, creation is answered with 200 and appends one document. The document is
  pending. Its expiry is the handler's reading of the clock cut down to whole seconds plus
  600 seconds. Its creation time is the later reading of the save, so the expiry is at
  most 600 seconds after the creation time when the clock has not gone back between the
  two readings, and falls short of that by less than one second plus the time between the
  two readings. The returned signature is the HMAC of the returned payload under the
  process-wide secret; both are stored with the document.
\<close>

theorem create_pending_signed:
  assumes "c_payType r = Some pt" and "paymentType r \<in> {''phonepe'', ''paytm''}"
    and "parseFloat (c_amount r) = Fin a" and "0 < a"
    and "isObjectId (or_null (c_userId r))" and "isObjectId (or_null (c_orderId r))"
    and "trim (merchantUPI (fst (getSettings s))) \<noteq> []"
    and "findOne (generateTransactionId ev) (transactions s) = None"
  shows "fst (fst (createPayment ev ua r s)) = 200
       \<and> (\<exists>d p. transactions (snd (createPayment ev ua r s)) = transactions s @ [d]
             \<and> tid d = generateTransactionId ev \<and> status d = ''pending''
             \<and> expires d = (now ev div 1000 + 600) * 1000
             \<and> createdAt d = saved_at ev
             \<and> (now ev \<le> saved_at ev \<longrightarrow> expires d \<le> createdAt d + 600 * 1000)
             \<and> createdAt d + 600 * 1000 < expires d + 1000 + (saved_at ev - now ev)
             \<and> payload d = Some p \<and> signature d = Some (hmac_hex (MERCHANT_SECRET ev) p)
             \<and> field ''payload'' (snd (fst (createPayment ev ua r s))) = Some (JStr p)
             \<and> field ''sig'' (snd (fst (createPayment ev ua r s)))
                 = Some (JStr (hmac_hex (MERCHANT_SECRET ev) p))
             \<and> field ''expires'' (snd (fst (createPayment ev ua r s)))
                 = Some (JNum (Fin (of_int (now ev div 1000 + 600)))))"
proof -
  have "now ev div 1000 * 1000 \<le> now ev" by simp
  then have le: "now ev \<le> saved_at ev \<longrightarrow>
      (now ev div 1000 + 600) * 1000 \<le> saved_at ev + 600 * 1000"
    by (simp add: algebra_simps)
  have "now ev = now ev div 1000 * 1000 + now ev mod 1000" by simp
  moreover have "now ev mod 1000 < 1000" by simp
  ultimately have "now ev < now ev div 1000 * 1000 + 1000" by linarith
  then have "saved_at ev + 600 * 1000
      < (now ev div 1000 + 600) * 1000 + 1000 + (saved_at ev - now ev)"
    by (simp add: algebra_simps)
  with le show ?thesis
    by (simp add: createPayment_stores [OF assms] created_body_def new_transaction_def
        expiry_seconds_def bundle_signature)
qed

theorem create_pending_signed_witness:
  "c_payType paytm_body = Some ''Paytm ''
   \<and> paymentType paytm_body \<in> {''phonepe'', ''paytm''}
   \<and> parseFloat (c_amount paytm_body) = Fin 250 \<and> (0::rat) < 250
   \<and> findOne (generateTransactionId create_env) (transactions empty_db) = None
   \<and> now create_env \<le> saved_at create_env
   \<and> fst (fst (createPayment create_env None paytm_body empty_db)) = 200"
proof -
  have c: "now create_env \<le> saved_at create_env" by (simp add: create_env_def)
  have h: "c_payType paytm_body = Some ''Paytm ''"
    "paymentType paytm_body \<in> {''phonepe'', ''paytm''}"
    "parseFloat (c_amount paytm_body) = Fin 250" "(0::rat) < 250"
    "isObjectId (or_null (c_userId paytm_body))" "isObjectId (or_null (c_orderId paytm_body))"
    "trim (merchantUPI (fst (getSettings empty_db))) \<noteq> []"
    "findOne (generateTransactionId create_env) (transactions empty_db) = None"
    using default_upi_trimmed
    by (simp_all add: paytm_body_type empty_db_def getSettings_def or_null_def isObjectId_def)
      (simp_all add: paytm_body_def)
  show ?thesis
    using h(1-4,8) c create_pending_signed [OF h, of None] by blast
qed

text \<open>
  C5 as stated fails in the expiry: a payment whose handler reads the clock at
  1700000000123 milliseconds and whose document is saved at 1700000000131 is stored with
  that creation time and with the expiry 1700000600000, which is 131 milliseconds short of
  the creation time plus 600 seconds.
\<close>

theorem expiry_is_truncated:
  "map status (transactions (snd (createPayment create_env None paytm_body empty_db))) = [''pending'']
   \<and> map createdAt (transactions (snd (createPayment create_env None paytm_body empty_db)))
       = [1700000000131]
   \<and> map expires (transactions (snd (createPayment create_env None paytm_body empty_db)))
       = [1700000600000]
   \<and> (1700000600000 :: int) \<noteq> 1700000000131 + 600 * 1000"
  by code_simp




text \<open>
  C8, as the code has it. A negative amount persists no transaction: the request is
  answered with 400 or 500, and when the payment type and the references are acceptable
  the answer is the general failure 500 carrying the validation error of the path
  \<open>amount\<close>. The number 0 is answered with 400 "Invalid payload" and changes nothing.
\<close>

theorem create_rejects_negative_amount:
  assumes "parseFloat (c_amount r) = Fin a" and "a < 0"
  shows "transactions (snd (createPayment ev ua r s)) = transactions s
       \<and> fst (fst (createPayment ev ua r s)) \<in> {400, 500}
       \<and> (truthy (c_payType r) \<and> paymentType r \<in> {''phonepe'', ''paytm''}
            \<and> isObjectId (or_null (c_userId r)) \<and> isObjectId (or_null (c_orderId r)) \<longrightarrow>
           fst (createPayment ev ua r s)
             = (500, failure_body ''Failed to create payment'' (ValidationError ''amount'')))
       \<and> createPayment ev ua (r\<lparr>c_amount := VNum (Fin 0)\<rparr>) s
           = ((400, error_body ''Invalid payload''), s)"
proof -
  have z: "createPayment ev ua (r\<lparr>c_amount := VNum (Fin 0)\<rparr>) s
      = ((400, error_body ''Invalid payload''), s)"
    by (simp add: createPayment_def)
  have "a \<noteq> 0" using assms(2) by simp
  with assms(1) have n: "\<not> falsy (c_amount r)" by (rule parseFloat_truthy)
  have v: "validateNew r (new_transaction ev r p u (Fin a) b) \<noteq> None" for p u b
    using assms(2) by (simp add: validateNew_def new_transaction_def)
  have w: "isObjectId (or_null (c_userId r)) \<Longrightarrow> isObjectId (or_null (c_orderId r)) \<Longrightarrow>
      validateNew r (new_transaction ev r p u (Fin a) b) = Some (ValidationError ''amount'')" for p u b
    using assms(2) by (simp add: validateNew_def new_transaction_def)
  have sp: "snd (store_payment ev r (Fin a) u b t) = t
      \<and> fst (fst (store_payment ev r (Fin a) u b t)) = 500" for u b t
    using v [of "paymentType r" u b]
    by (auto simp: store_payment_def saveNew_def split: option.splits)
  have sq: "isObjectId (or_null (c_userId r)) \<Longrightarrow> isObjectId (or_null (c_orderId r)) \<Longrightarrow>
      fst (store_payment ev r (Fin a) u b t)
        = (500, failure_body ''Failed to create payment'' (ValidationError ''amount''))" for u b t
    by (simp add: store_payment_def saveNew_def w)
  show ?thesis
  proof (cases "truthy (c_payType r) \<and> paymentType r \<in> {''phonepe'', ''paytm''}")
    case True
    then have "createPayment ev ua r s
        = store_payment ev r (Fin a) (merchantUPI (fst (getSettings s)))
            (make_bundle ev (userAgent ua) (paymentType r) (merchantUPI (fst (getSettings s))) (Fin a))
            (snd (getSettings s))"
      using n assms(1) by (simp add: createPayment_def issue_payment_def)
    then show ?thesis
      using sp sq z by (simp add: transactions_getSettings)
  next
    case False
    then have "snd (createPayment ev ua r s) = s \<and> fst (fst (createPayment ev ua r s)) = 400"
      by (auto simp: createPayment_def)
    then show ?thesis using False z by auto
  qed
qed

theorem create_rejects_negative_amount_witness:
  "parseFloat (c_amount (paytm_body\<lparr>c_amount := VNum (Fin (- 5))\<rparr>)) = Fin (- 5)
   \<and> (- 5 :: rat) < 0
   \<and> transactions (snd (createPayment create_env None (paytm_body\<lparr>c_amount := VNum (Fin (- 5))\<rparr>) empty_db))
       = transactions empty_db
   \<and> fst (fst (createPayment create_env None (paytm_body\<lparr>c_amount := VNum (Fin (- 5))\<rparr>) empty_db))
       \<in> {400, 500}"
proof -
  have h: "parseFloat (c_amount (paytm_body\<lparr>c_amount := VNum (Fin (- 5))\<rparr>)) = Fin (- 5)"
    "(- 5 :: rat) < 0"
    by simp_all
  show ?thesis
    using h create_rejects_negative_amount [OF h, of create_env None empty_db] by blast
qed

text \<open>
  C8 as stated fails at zero: the amount sent as the text "0" is not an empty string, is
  read as the number 0, passes the schema's minimum of 0, and the request is answered
  with 200 and a transaction of amount 0 is stored.
\<close>

theorem zero_text_amount_is_stored:
  "parseFloat (c_amount (paytm_body\<lparr>c_amount := VStr ''0''\<rparr>)) = Fin 0
   \<and> fst (fst (createPayment create_env None (paytm_body\<lparr>c_amount := VStr ''0''\<rparr>) empty_db)) = 200
   \<and> map amount (transactions
        (snd (createPayment create_env None (paytm_body\<lparr>c_amount := VStr ''0''\<rparr>) empty_db)))
       = [Fin 0]"
  by code_simp

text \<open>
  C9, as the code has it. The PhonePe payload is the base64 text of the serialized object
  whose field \<open>initialAmount\<close> is the floor of the double product of the amount and 100.
\<close>

theorem phonepe_minor_units:
  assumes "c_payType r = Some pt" and "paymentType r = ''phonepe''"
    and "parseFloat (c_amount r) = Fin a" and "0 < a"
    and "isObjectId (or_null (c_userId r))" and "isObjectId (or_null (c_orderId r))"
    and "trim (merchantUPI (fst (getSettings s))) \<noteq> []"
    and "findOne (generateTransactionId ev) (transactions s) = None"
  shows "field ''payload'' (snd (fst (createPayment ev ua r s)))
           = Some (JStr (base64 (stringify_phonepe
               (phonepe_payloadJson (merchantUPI (fst (getSettings s))) (generateNote ev) (Fin a)))))
       \<and> initialAmount
            (phonepe_payloadJson (merchantUPI (fst (getSettings s))) (generateNote ev) (Fin a))
           = Math_floor (js_mul (Fin a) (Fin 100))"
proof -
  have p: "paymentType r \<in> {''phonepe'', ''paytm''}" using assms(2) by simp
  show ?thesis
    using assms(2)
    by (simp add: createPayment_stores [OF assms(1) p assms(3-8)] created_body_def
        make_bundle_def phonepe_bundle_def phonepe_payloadJson_def)
qed

theorem phonepe_minor_units_witness:
  "c_payType phonepe_body = Some ''phonepe'' \<and> paymentType phonepe_body = ''phonepe''
   \<and> parseFloat (c_amount phonepe_body) = Fin (5224175567749775 / 18014398509481984)
   \<and> (0::rat) < 5224175567749775 / 18014398509481984
   \<and> findOne (generateTransactionId create_env) (transactions empty_db) = None
   \<and> initialAmount (phonepe_payloadJson (merchantUPI (fst (getSettings empty_db)))
         (generateNote create_env) (Fin (5224175567749775 / 18014398509481984)))
       = Math_floor (js_mul (Fin (5224175567749775 / 18014398509481984)) (Fin 100))"
proof -
  have h: "c_payType phonepe_body = Some ''phonepe''" "paymentType phonepe_body = ''phonepe''"
    "parseFloat (c_amount phonepe_body) = Fin (5224175567749775 / 18014398509481984)"
    "(0::rat) < 5224175567749775 / 18014398509481984"
    "isObjectId (or_null (c_userId phonepe_body))" "isObjectId (or_null (c_orderId phonepe_body))"
    "trim (merchantUPI (fst (getSettings empty_db))) \<noteq> []"
    "findOne (generateTransactionId create_env) (transactions empty_db) = None"
    using default_upi_trimmed
    by (simp_all add: phonepe_body_type phonepe_body_amount empty_db_def getSettings_def
        or_null_def isObjectId_def)
      (simp_all add: phonepe_body_def)
  show ?thesis
    using h(1-4,8) phonepe_minor_units [OF h, of None] by blast
qed

text \<open>
  C9 as stated fails. For the amount 0.29 the payload carries 28 minor units, where the
  amount times 100 rounded to the nearest integer is 29; for the amount 1.999 it carries
  199, where rounding gives 200.
\<close>

theorem minor_units_not_rounded:
  "parseFloat (VStr ''0.29'') = Fin (5224175567749775 / 18014398509481984)
   \<and> initialAmount (phonepe_payloadJson ''mstandwafuelcentre@sbi'' ''s521'' (parseFloat (VStr ''0.29'')))
       = Fin 28
   \<and> spec_minor_units (5224175567749775 / 18014398509481984) = 29
   \<and> field ''payload'' (snd (fst (createPayment create_env None phonepe_body empty_db)))
       = Some (JStr ''eyJjb250YWN0Ijp7ImNic05hbWUiOiIiLCJuaWNrTmFtZSI6IiIsInZwYSI6Im1zdGFuZHdhZnVlbGNlbnRyZUBzYmkiLCJ0eXBlIjoiVlBBIn0sInAycFBheW1lbnRDaGVja291dFBhcmFtcyI6eyJub3RlIjoiczUyMSIsImlzQnlEZWZhdWx0S25vd25Db250YWN0Ijp0cnVlLCJpbml0aWFsQW1vdW50IjoyOCwiY3VycmVuY3kiOiJJTlIiLCJjaGVja291dFR5cGUiOiJERUZBVUxUIiwidHJhbnNhY3Rpb25Db250ZXh0IjoicDJwIn19'')
   \<and> parseFloat (VStr ''1.999'') = Fin (4501347827556811 / 2251799813685248)
   \<and> initialAmount (phonepe_payloadJson ''mstandwafuelcentre@sbi'' ''s521'' (parseFloat (VStr ''1.999'')))
       = Fin 199
   \<and> spec_minor_units (4501347827556811 / 2251799813685248) = 200"
  by code_simp

end
